theory Spec2Isabelle
  imports Main "HOL-Library.Word"
begin

unbundle bit_operations_syntax

section \<open>Sparta provisioning workflow (provision\_build.go)\<close>

text \<open>
  A shallow embedding of the provisioning workflow of \<^verbatim>\<open>provision_build.go\<close>.
  Go strings are byte strings (\<open>string\<close>), \<open>nil\<close> pointers are \<open>None\<close>, the
  \<open>(value, error)\<close> results are sums with the error on the left, and everything the
  workflow obtains from outside the file (AWS, the file system, the clock, user hooks,
  the standard library's SHA-1) is read from a \<open>world\<close> record of responses.
\<close>

subsection \<open>Errors and panics\<close>

datatype error =
    Err string                   \<comment> \<open>\<open>errors.New\<close>, \<open>fmt.Errorf\<close>: the rendered message\<close>
  | Wrapf error string           \<comment> \<open>\<open>errors.Wrapf(cause, message)\<close>\<close>
  | Errorf string "error list"   \<comment> \<open>\<open>errors.Errorf(format, errs)\<close> with a slice of errors as operand\<close>

datatype 'a outcome =
    Panic string                 \<comment> \<open>a run-time panic, which nothing in the file recovers\<close>
  | Return 'a

subsection \<open>Standard-library string functions used by the naming policy\<close>

text \<open>\<open>path.Ext\<close>: the suffix beginning at the final dot of the final slash-separated
  element; empty if there is no dot. The scan runs from the end of the path.\<close>

fun ext_scan :: "string \<Rightarrow> string \<Rightarrow> string" where
  "ext_scan [] acc = []"
| "ext_scan (c # rest) acc =
     (if c = CHR ''/'' then []
      else if c = CHR ''.'' then c # acc
      else ext_scan rest (c # acc))"

definition path_Ext :: "string \<Rightarrow> string" where
  "path_Ext p = ext_scan (rev p) []"

definition strings_HasSuffix :: "string \<Rightarrow> string \<Rightarrow> bool" where
  "strings_HasSuffix s suffix \<longleftrightarrow>
     length suffix \<le> length s \<and> drop (length s - length suffix) s = suffix"

definition strings_TrimSuffix :: "string \<Rightarrow> string \<Rightarrow> string" where
  "strings_TrimSuffix s suffix =
     (if strings_HasSuffix s suffix then take (length s - length suffix) s else s)"

definition strings_HasPrefix :: "string \<Rightarrow> string \<Rightarrow> bool" where
  "strings_HasPrefix s pre \<longleftrightarrow> length pre \<le> length s \<and> take (length pre) s = pre"

definition strings_TrimPrefix :: "string \<Rightarrow> string \<Rightarrow> string" where
  "strings_TrimPrefix s pre = (if strings_HasPrefix s pre then drop (length pre) s else s)"

fun strings_Join :: "string list \<Rightarrow> string \<Rightarrow> string" where
  "strings_Join [] sep = []"
| "strings_Join [x] sep = x"
| "strings_Join (x # y # ys) sep = x @ sep @ strings_Join (y # ys) sep"

text \<open>\<open>hex.EncodeToString\<close>: two lower-case digits per byte, high nibble first.\<close>

definition hextable :: string where
  "hextable = ''0123456789abcdef''"

definition hex_byte :: "8 word \<Rightarrow> string" where
  "hex_byte b = [hextable ! unat (drop_bit 4 b), hextable ! unat (b AND 0x0f)]"

definition hex_EncodeToString :: "8 word list \<Rightarrow> string" where
  "hex_EncodeToString bs = concat (map hex_byte bs)"

text \<open>The verb \<open>%d\<close> on an \<open>int64\<close>: decimal digits, with a minus sign when negative.\<close>

definition digit_char :: "nat \<Rightarrow> char" where
  "digit_char d = char_of (48 + d)"

fun decimal :: "nat \<Rightarrow> string" where
  "decimal n = (if n < 10 then [digit_char n] else decimal (n div 10) @ [digit_char (n mod 10)])"

declare decimal.simps [simp del]

definition format_d :: "64 word \<Rightarrow> string" where
  "format_d v = (if sint v < 0 then CHR ''-'' # decimal (nat (- sint v)) else decimal (nat (sint v)))"

subsection \<open>The artifact naming policy\<close>

text \<open>
  \<open>versionAwareS3KeyName\<close> reads the clock (\<open>time.Now().UnixNano()\<close>, an \<open>int64\<close>)
  and hashes with \<open>crypto/sha1\<close>. Both are passed in: \<open>now\<close> is the clock reading of the
  call, \<open>sha1\<close> maps the bytes written to the digest that \<open>hash.Sum(nil)\<close> returns.
  \<open>hash.Write\<close> never returns an error (the contract of \<open>hash.Hash\<close>), so the
  \<open>writeErr\<close> branch is never taken and the function always returns a key.
\<close>

definition keySalt :: "string \<Rightarrow> 64 word \<Rightarrow> string" where
  "keySalt s3DefaultKey now = s3DefaultKey @ ''-'' @ format_d now"

definition versionAwareS3KeyName ::
  "(string \<Rightarrow> 8 word list) \<Rightarrow> 64 word \<Rightarrow> string \<Rightarrow> bool \<Rightarrow> error + string" where
  "versionAwareS3KeyName sha1 now s3DefaultKey s3VersioningEnabled =
     (if \<not> s3VersioningEnabled then
        (let extension = path_Ext s3DefaultKey;
             prefixString = strings_TrimSuffix s3DefaultKey extension;
             salt = keySalt s3DefaultKey now
         in Inr (prefixString @ ''-'' @ hex_EncodeToString (sha1 salt) @ extension))
      else Inr s3DefaultKey)"

subsection \<open>Data model\<close>

text \<open>\<open>s3UploadURL\<close>: an S3 location with its key and optional object version.\<close>

record s3UploadURL =
  location :: string
  path :: string
  version :: string

definition keyName :: "s3UploadURL \<Rightarrow> string" where
  "keyName s3URL = path s3URL"

text \<open>The nil-safe accessors of the upload location.\<close>

definition codeZipKey :: "s3UploadURL option \<Rightarrow> string" where
  "codeZipKey url = (case url of None \<Rightarrow> [] | Some u \<Rightarrow> keyName u)"

definition codeZipVersion :: "s3UploadURL option \<Rightarrow> string" where
  "codeZipVersion url = (case url of None \<Rightarrow> [] | Some u \<Rightarrow> version u)"

text \<open>
  The CloudFormation template is a map from logical names to resources; the list keeps
  one entry per name, in the order a \<open>range\<close> over the map visits them. Of a resource
  the workflow reads its type and, for a Lambda function, its environment. The
  \<open>Variables\<close> of an environment are an \<open>interface{}\<close>: either a
  \<open>map[string]interface{}\<close> or a value of another type (named by \<open>%T\<close>).
\<close>

datatype envVariables =
    MapStringInterface "(string \<times> string) list"
  | OtherVariables string

datatype resourceProperties =
    LambdaFunction "envVariables option"   \<comment> \<open>\<open>*gocf.LambdaFunction\<close> with its \<open>Environment\<close>\<close>
  | IAMRole                                 \<comment> \<open>what \<open>RoleDefinition.toResource\<close> returns\<close>
  | OtherResource string                    \<comment> \<open>any other resource, with its type name\<close>

type_synonym template = "(string \<times> resourceProperties) list"

definition CfnResourceType :: "resourceProperties \<Rightarrow> string" where
  "CfnResourceType r =
     (case r of LambdaFunction _ \<Rightarrow> ''AWS::Lambda::Function''
      | IAMRole \<Rightarrow> ''AWS::IAM::Role''
      | OtherResource t \<Rightarrow> t)"

definition AddResource :: "string \<Rightarrow> resourceProperties \<Rightarrow> template \<Rightarrow> template" where
  "AddResource name r t =
     (if name \<in> fst ` set t then map (\<lambda>(k, v). if k = name then (k, r) else (k, v)) t
      else t @ [(name, r)])"

datatype stringExpr =
    GetAtt string string     \<comment> \<open>\<open>gocf.GetAtt(resource, attribute)\<close>\<close>
  | StringLit string         \<comment> \<open>\<open>gocf.String(literal)\<close>\<close>

text \<open>
  Deployable functions. An inline role definition and a user hook are known to the
  workflow only through the methods it calls on them, so each is an opaque identity.
\<close>

type_synonym iamRoleDefinition = string
type_synonym hookHandler = string

record customResourceInfo =
  roleName :: string
  roleDefinition :: "iamRoleDefinition option"
  userFunctionName :: string

record LambdaAWSInfo =
  lambdaFunctionName :: string
  RoleName :: string
  RoleDefinition :: "iamRoleDefinition option"
  customResources :: "customResourceInfo list"

record WorkflowHooks =
  PreBuild :: "hookHandler option"
  PreBuilds :: "hookHandler list"
  PostBuild :: "hookHandler option"
  PostBuilds :: "hookHandler list"
  PreMarshall :: "hookHandler option"
  PreMarshalls :: "hookHandler list"
  PostMarshall :: "hookHandler option"
  PostMarshalls :: "hookHandler list"
  ServiceDecorator :: "hookHandler option"
  ServiceDecorators :: "hookHandler list"
  Archive :: "hookHandler option"
  Archives :: "hookHandler list"
  Rollback :: "hookHandler option"
  Rollbacks :: "hookHandler list"
  Validators :: "hookHandler list"

record s3SiteContext =
  s3Site :: "string option"               \<comment> \<open>the site, by its resources directory\<close>
  s3UploadURL :: "s3UploadURL option"

record userdata =
  noop :: bool
  inPlace :: bool
  serviceName :: string
  lambdaAWSInfos :: "LambdaAWSInfo list"
  workflowHooks :: "WorkflowHooks option"
  codePipelineTrigger :: string
  api :: "string option"
  s3SiteContext :: s3SiteContext
  s3Bucket :: string

record provisionContext =
  s3CodeZipURL :: "s3UploadURL option"
  lambdaIAMRoleNameMap :: "string \<rightharpoonup> stringExpr"
  cfTemplate :: template
  s3BucketVersioningEnabled :: bool

datatype rollbackFunction = S3RollbackFunc string   \<comment> \<open>\<open>spartaS3.CreateS3RollbackFunc(session, location)\<close>\<close>
datatype finalizerFunction = FileCleanup string     \<comment> \<open>the closure of \<open>registerFileCleanupFinalizer\<close>\<close>

record transaction =
  rollbackFunctions :: "rollbackFunction list"
  finalizerFunctions :: "finalizerFunction list"
  stepDurations :: "string list"

text \<open>The workflow steps: each closure of the source with the value it captures.\<close>

datatype workflowStep =
    VerifyIAMRoles
  | VerifyAWSPreconditions
  | CreatePackageStep
  | CreateUploadStep string
  | ValidateSpartaPostconditions
  | EnsureCloudFormationStack

record change =
  Action :: string
  ResourceType :: string
  LogicalResourceId :: string
  PhysicalResourceId :: string

record updateFunctionCodeInput =
  FunctionName :: string
  S3Bucket :: string
  S3Key :: string
  S3ObjectVersion :: "string option"

text \<open>
  What a run does is recorded in a trace: the remote calls, the resources registered in
  the template, the hooks called, the warnings logged, and what the loop of
  \<open>Provision\<close> itself does (a step invoked, a step's error seen, the rollback
  procedure, a finalizer).
\<close>

datatype remoteCall =
    IAM_GetRole string
  | S3_BucketVersioningEnabled string
  | S3_BucketRegion string
  | S3_UploadLocalFileToS3 string string string
  | CF_CreateStackChangeSet string string string
  | Lambda_UpdateFunctionCode updateFunctionCodeInput
  | CF_DeleteChangeSet string string
  | CF_DescribeStacks string
  | CF_ConvergeStackState string string

datatype event =
    EvStep workflowStep
  | EvStepError error
  | EvWarn string
  | EvAddResource string
  | EvRemote remoteCall
  | EvHook string hookHandler
  | EvRollback "hookHandler list" "rollbackFunction list"
  | EvFinalizer finalizerFunction

record workflowContext =
  userdata :: userdata
  "context" :: provisionContext
  transaction :: transaction
  trace :: "event list"
  clock :: nat

subsection \<open>The world outside the file\<close>

text \<open>
  Every response the workflow receives from outside \<^verbatim>\<open>provision_build.go\<close>: the
  standard library, the functions of the repository defined in other files, the AWS
  services, the local file system and build tools, and the user's hooks. A collaborator
  that can only fail is asked by the name of the call (\<open>localOp\<close>); one that edits
  the template returns the new template.
\<close>

record world =
  \<comment> \<open>standard library\<close>
  sha1_Sum :: "string \<Rightarrow> 8 word list"
  time_Now_UnixNano :: "nat \<Rightarrow> 64 word"      \<comment> \<open>the successive readings of the clock\<close>
  url_Parse :: "string \<Rightarrow> error + (string \<times> string)"   \<comment> \<open>\<open>Path\<close> and \<open>RawQuery\<close>\<close>
  url_ParseQuery :: "string \<Rightarrow> error + (string \<Rightarrow> string list)"
  filepath_Base :: "string \<Rightarrow> string"
  \<comment> \<open>the repository, outside this file\<close>
  validateSpartaPreconditions :: "LambdaAWSInfo list \<Rightarrow> error option"
  profileDecorator :: "(LambdaAWSInfo \<Rightarrow> error option) option"
  logicalName :: "iamRoleDefinition \<Rightarrow> string \<Rightarrow> string \<Rightarrow> string"
  envVarDiscoveryInformation :: string
  envVarLogLevel :: string
  sanitizedName :: "string \<Rightarrow> string"
  CloudFormationResourceName :: "string \<Rightarrow> string"
  \<comment> \<open>AWS\<close>
  sessionRegion :: string                      \<comment> \<open>\<open>*awsSession.Config.Region\<close>\<close>
  iam_GetRole :: "string \<Rightarrow> error + string"   \<comment> \<open>the role's ARN\<close>
  s3_BucketVersioningEnabled :: "string \<Rightarrow> error + bool"
  s3_BucketRegion :: "string \<Rightarrow> error + string"
  s3_UploadLocalFileToS3 :: "string \<Rightarrow> string \<Rightarrow> string \<Rightarrow> error + string"
  cf_CreateStackChangeSet :: "string \<Rightarrow> string \<Rightarrow> template \<Rightarrow> string \<Rightarrow> error + change list option"
  lambda_UpdateFunctionCode :: "updateFunctionCodeInput \<Rightarrow> error option"
  cf_DeleteChangeSet :: "string \<Rightarrow> string \<Rightarrow> error option"
  cf_DescribeStacks :: "string \<Rightarrow> error + string list"
  cf_ConvergeStackState :: "string \<Rightarrow> template \<Rightarrow> string \<Rightarrow> nat \<Rightarrow> error + string"
  \<comment> \<open>local collaborators\<close>
  system_TemporaryFile :: "string \<Rightarrow> error + string"
  localOp :: "string \<Rightarrow> error option"
  templateOp :: "string \<Rightarrow> string \<Rightarrow> string \<Rightarrow> string \<Rightarrow> template \<Rightarrow> error + template"
  safeMerge :: "template \<Rightarrow> template \<Rightarrow> error list \<times> template"
  \<comment> \<open>user hooks\<close>
  decorateWorkflow :: "string \<Rightarrow> hookHandler \<Rightarrow> error option"
  decorateArchive :: "hookHandler \<Rightarrow> error option"
  decorateService :: "hookHandler \<Rightarrow> error + template"
  validateService :: "hookHandler \<Rightarrow> template \<Rightarrow> error option"

subsection \<open>Upload locations\<close>

definition newS3UploadURL :: "world \<Rightarrow> string \<Rightarrow> s3UploadURL option" where
  "newS3UploadURL w s3URL =
     (case url_Parse w s3URL of
        Inl urlPartsErr \<Rightarrow> None
      | Inr urlParts \<Rightarrow>
          (case url_ParseQuery w (snd urlParts) of
             Inl queryParamsErr \<Rightarrow> None
           | Inr queryParams \<Rightarrow>
               (let versionIDValues = queryParams ''versionId'';
                    v = (if length versionIDValues = 1 then versionIDValues ! 0 else [])
                in Some \<lparr>location = s3URL,
                         path = strings_TrimPrefix (fst urlParts) ''/'',
                         version = v\<rparr>)))"

subsection \<open>The transaction: durations, rollback functions, finalizers\<close>

definition logEvent :: "event \<Rightarrow> workflowContext \<Rightarrow> workflowContext" where
  "logEvent ev ctx = ctx\<lparr>trace := trace ctx @ [ev]\<rparr>"

definition recordDuration :: "string \<Rightarrow> workflowContext \<Rightarrow> workflowContext" where
  "recordDuration name ctx =
     ctx\<lparr>transaction := (transaction ctx)\<lparr>stepDurations := stepDurations (transaction ctx) @ [name]\<rparr>\<rparr>"

text \<open>\<open>defer recordDuration(time.Now(), name, ctx)\<close>: runs when the step returns, however it does.\<close>

definition deferRecordDuration :: "string \<Rightarrow> 'a \<times> workflowContext \<Rightarrow> 'a \<times> workflowContext" where
  "deferRecordDuration name r = (fst r, recordDuration name (snd r))"

definition registerRollback :: "rollbackFunction \<Rightarrow> workflowContext \<Rightarrow> workflowContext" where
  "registerRollback userFunction ctx =
     ctx\<lparr>transaction := (transaction ctx)\<lparr>rollbackFunctions :=
        rollbackFunctions (transaction ctx) @ [userFunction]\<rparr>\<rparr>"

definition registerFinalizer :: "finalizerFunction \<Rightarrow> workflowContext \<Rightarrow> workflowContext" where
  "registerFinalizer userFunction ctx =
     ctx\<lparr>transaction := (transaction ctx)\<lparr>finalizerFunctions :=
        finalizerFunctions (transaction ctx) @ [userFunction]\<rparr>\<rparr>"

definition registerFileCleanupFinalizer :: "string \<Rightarrow> workflowContext \<Rightarrow> workflowContext" where
  "registerFileCleanupFinalizer localPath ctx = registerFinalizer (FileCleanup localPath) ctx"

text \<open>
  \<open>callRollbackHook\<close> starts one goroutine per rollback hook and returns \<open>nil\<close>;
  the model returns the hooks it started. \<open>rollback\<close> then starts one goroutine per
  registered rollback function and waits for all of them: the trace records one
  \<open>EvRollback\<close> with everything that ran concurrently.
\<close>

definition callRollbackHook :: "workflowContext \<Rightarrow> hookHandler list \<times> workflowContext" where
  "callRollbackHook ctx =
     (case workflowHooks (userdata ctx) of
        None \<Rightarrow> ([], ctx)
      | Some hooks \<Rightarrow>
          (case Rollback hooks of
             Some h \<Rightarrow>
               (Rollbacks hooks @ [h],
                logEvent (EvWarn ''DEPRECATED: Single RollbackHook superseded by RollbackHookHandler slice'') ctx)
           | None \<Rightarrow> (Rollbacks hooks, ctx)))"

definition rollback :: "workflowContext \<Rightarrow> workflowContext" where
  "rollback ctx =
     (let started = callRollbackHook ctx;
          ctx1 = snd started
      in recordDuration ''Rollback''
           (logEvent (EvRollback (fst started) (rollbackFunctions (transaction ctx1))) ctx1))"

subsection \<open>Calling the hooks\<close>

fun runWorkflowHooks ::
  "world \<Rightarrow> string \<Rightarrow> hookHandler list \<Rightarrow> workflowContext \<Rightarrow> error option \<times> workflowContext" where
  "runWorkflowHooks w hookPhase [] ctx = (None, ctx)"
| "runWorkflowHooks w hookPhase (eachHook # hooks) ctx =
     (let ctx1 = logEvent (EvHook hookPhase eachHook) ctx
      in case decorateWorkflow w hookPhase eachHook of
           Some hookErr \<Rightarrow> (Some (Wrapf hookErr ''DecorateWorkflow returned an error''), ctx1)
         | None \<Rightarrow> runWorkflowHooks w hookPhase hooks ctx1)"

definition callWorkflowHook ::
  "world \<Rightarrow> string \<Rightarrow> hookHandler option \<Rightarrow> hookHandler list \<Rightarrow> workflowContext
     \<Rightarrow> error option \<times> workflowContext" where
  "callWorkflowHook w hookPhase hook hooks ctx =
     (case hook of
        Some h \<Rightarrow>
          runWorkflowHooks w hookPhase (hooks @ [h])
            (logEvent (EvWarn (''DEPRECATED: Single '' @ hookPhase @ '' hook superseded by ''
                                 @ hookPhase @ ''s slice'')) ctx)
      | None \<Rightarrow> runWorkflowHooks w hookPhase hooks ctx)"

fun runArchiveHooks ::
  "world \<Rightarrow> hookHandler list \<Rightarrow> workflowContext \<Rightarrow> error option \<times> workflowContext" where
  "runArchiveHooks w [] ctx = (None, ctx)"
| "runArchiveHooks w (eachArchiveHook # hooks) ctx =
     (let ctx1 = logEvent (EvHook ''Archive'' eachArchiveHook) ctx
      in case decorateArchive w eachArchiveHook of
           Some hookErr \<Rightarrow> (Some (Wrapf hookErr ''DecorateArchive returned an error''), ctx1)
         | None \<Rightarrow> runArchiveHooks w hooks ctx1)"

definition callArchiveHook :: "world \<Rightarrow> workflowContext \<Rightarrow> error option \<times> workflowContext" where
  "callArchiveHook w ctx =
     (case workflowHooks (userdata ctx) of
        None \<Rightarrow> (None, ctx)
      | Some hooks \<Rightarrow>
          (case Archive hooks of
             Some h \<Rightarrow>
               runArchiveHooks w (Archives hooks @ [h])
                 (logEvent (EvWarn ''DEPRECATED: Single ArchiveHook hook superseded by ArchiveHooks slice'') ctx)
           | None \<Rightarrow> runArchiveHooks w (Archives hooks) ctx))"

definition setTemplate :: "template \<Rightarrow> workflowContext \<Rightarrow> workflowContext" where
  "setTemplate t ctx = ctx\<lparr>context := (context ctx)\<lparr>cfTemplate := t\<rparr>\<rparr>"

fun runServiceDecorators ::
  "world \<Rightarrow> hookHandler list \<Rightarrow> workflowContext \<Rightarrow> error option \<times> workflowContext" where
  "runServiceDecorators w [] ctx = (None, ctx)"
| "runServiceDecorators w (eachServiceHook # hooks) ctx =
     (let ctx1 = logEvent (EvHook ''ServiceDecorator'' eachServiceHook) ctx
      in case decorateService w eachServiceHook of
           Inl decoratorError \<Rightarrow> (Some decoratorError, ctx1)
         | Inr serviceTemplate \<Rightarrow>
             (let merged = safeMerge w serviceTemplate (cfTemplate (context ctx1));
                  ctx2 = setTemplate (snd merged) ctx1
              in if length (fst merged) \<noteq> 0
                 then (Some (Errorf ''Failed to merge templates: %#v'' (fst merged)), ctx2)
                 else runServiceDecorators w hooks ctx2))"

definition callServiceDecoratorHook :: "world \<Rightarrow> workflowContext \<Rightarrow> error option \<times> workflowContext" where
  "callServiceDecoratorHook w ctx =
     (case workflowHooks (userdata ctx) of
        None \<Rightarrow> (None, ctx)
      | Some hooks \<Rightarrow>
          (case ServiceDecorator hooks of
             Some h \<Rightarrow>
               runServiceDecorators w (ServiceDecorators hooks @ [h])
                 (logEvent (EvWarn ''DEPRECATED: Single ServiceDecorator hook superseded by ServiceDecorators slice'') ctx)
           | None \<Rightarrow> runServiceDecorators w (ServiceDecorators hooks) ctx))"

fun runValidationHooks ::
  "world \<Rightarrow> hookHandler list \<Rightarrow> template \<Rightarrow> workflowContext \<Rightarrow> error option \<times> workflowContext" where
  "runValidationHooks w [] t ctx = (None, ctx)"
| "runValidationHooks w (eachHook # hooks) t ctx =
     (case localOp w ''json.Unmarshal'' of
        Some unmarshalErr \<Rightarrow>
          (Some (Wrapf unmarshalErr ''Failed to unmarshal read-only copy of template for Validation''), ctx)
      | None \<Rightarrow>
          (let ctx1 = logEvent (EvHook ''Validation'' eachHook) ctx
           in case validateService w eachHook t of
                Some hookErr \<Rightarrow> (Some (Wrapf hookErr ''Service failed to pass validation''), ctx1)
              | None \<Rightarrow> runValidationHooks w hooks t ctx1))"

definition callValidationHooks ::
  "world \<Rightarrow> hookHandler list \<Rightarrow> template \<Rightarrow> workflowContext \<Rightarrow> error option \<times> workflowContext" where
  "callValidationHooks w validationHooks t ctx =
     (case (if length validationHooks \<noteq> 0 then localOp w ''json.Marshal'' else None) of
        Some jsonBytesErr \<Rightarrow> (Some (Wrapf jsonBytesErr ''Failed to marshal template for validation''), ctx)
      | None \<Rightarrow> runValidationHooks w validationHooks t ctx)"

subsection \<open>Uploading a local file\<close>

text \<open>
  The clock is read only when the naming policy salts the key, that is when the key is
  not given and versioning is disabled. In dry-run mode (\<open>noop\<close>) nothing is uploaded
  and nothing is registered; the location is made up from the bucket and the key.
\<close>

definition uploadLocalFileToS3 ::
  "world \<Rightarrow> string \<Rightarrow> string \<Rightarrow> workflowContext \<Rightarrow> (error + string) \<times> workflowContext" where
  "uploadLocalFileToS3 w localPath s3ObjectKey0 ctx0 =
     (let named =
            (if s3ObjectKey0 = [] then
               (let defaultS3KeyName = serviceName (userdata ctx0) @ ''/'' @ filepath_Base w localPath;
                    enabled = s3BucketVersioningEnabled (context ctx0)
                in (versionAwareS3KeyName (sha1_Sum w) (time_Now_UnixNano w (clock ctx0))
                      defaultS3KeyName enabled,
                    if enabled then ctx0 else ctx0\<lparr>clock := Suc (clock ctx0)\<rparr>))
             else (Inr s3ObjectKey0, ctx0));
          ctx = snd named
      in case fst named of
           Inl s3KeyNameErr \<Rightarrow>
             (Inl (Wrapf s3KeyNameErr ''Failed to create version aware S3 keyname''), ctx)
         | Inr s3ObjectKey \<Rightarrow>
             if noop (userdata ctx) then
               (Inr (''https://'' @ s3Bucket (userdata ctx) @ ''-s3.amazonaws.com/'' @ s3ObjectKey), ctx)
             else
               (let ctx1 = registerFileCleanupFinalizer localPath ctx;
                    ctx2 = logEvent (EvRemote (S3_UploadLocalFileToS3 localPath
                                       (s3Bucket (userdata ctx)) s3ObjectKey)) ctx1
                in case s3_UploadLocalFileToS3 w localPath (s3Bucket (userdata ctx)) s3ObjectKey of
                     Inl uploadURLErr \<Rightarrow>
                       (Inl (Wrapf uploadURLErr ''Failed to upload local file to S3''), ctx2)
                   | Inr uploadLocation \<Rightarrow>
                       (Inr uploadLocation, registerRollback (S3RollbackFunc uploadLocation) ctx2)))"

subsection \<open>Step 1: verify and cache the IAM roles\<close>

text \<open>
  \<open>lambdaIAMRoleNameMap\<close> is one cache for both kinds of key: the logical names of
  inline role definitions and the literal role names.
\<close>

definition cacheRole :: "string \<Rightarrow> stringExpr \<Rightarrow> workflowContext \<Rightarrow> workflowContext" where
  "cacheRole name expr ctx =
     ctx\<lparr>context := (context ctx)\<lparr>lambdaIAMRoleNameMap :=
        (lambdaIAMRoleNameMap (context ctx))(name \<mapsto> expr)\<rparr>\<rparr>"

text \<open>An inline role definition: registered as a template resource unless its logical name is cached.\<close>

definition registerRoleDefinition :: "string \<Rightarrow> workflowContext \<Rightarrow> workflowContext" where
  "registerRoleDefinition name ctx =
     (case lambdaIAMRoleNameMap (context ctx) name of
        Some _ \<Rightarrow> ctx
      | None \<Rightarrow>
          cacheRole name (GetAtt name ''Arn'')
            (logEvent (EvAddResource name)
               (setTemplate (AddResource name IAMRole (cfTemplate (context ctx))) ctx)))"

fun registerCustomResourceRoles ::
  "world \<Rightarrow> customResourceInfo list \<Rightarrow> workflowContext \<Rightarrow> workflowContext" where
  "registerCustomResourceRoles w [] ctx = ctx"
| "registerCustomResourceRoles w (eachCustomResource # rest) ctx =
     registerCustomResourceRoles w rest
       (case roleDefinition eachCustomResource of
          None \<Rightarrow> ctx
        | Some rd \<Rightarrow>
            registerRoleDefinition
              (logicalName w rd (serviceName (userdata ctx)) (userFunctionName eachCustomResource)) ctx)"

definition customResourceRoleNames :: "customResourceInfo list \<Rightarrow> string list" where
  "customResourceRoleNames crs = filter (\<lambda>n. n \<noteq> []) (map roleName crs)"

text \<open>The first loop: collect the literal role names, call the profile decorator, register the inline roles.\<close>

fun assembleRoles ::
  "world \<Rightarrow> LambdaAWSInfo list \<Rightarrow> string list \<Rightarrow> workflowContext
     \<Rightarrow> (error + string list) \<times> workflowContext" where
  "assembleRoles w [] allRoleNames ctx = (Inr allRoleNames, ctx)"
| "assembleRoles w (eachLambdaInfo # rest) allRoleNames ctx =
     (let names1 = (if RoleName eachLambdaInfo \<noteq> [] then allRoleNames @ [RoleName eachLambdaInfo]
                    else allRoleNames);
          names2 = names1 @ customResourceRoleNames (customResources eachLambdaInfo)
      in case (case profileDecorator w of None \<Rightarrow> None | Some decorate \<Rightarrow> decorate eachLambdaInfo) of
           Some profileErr \<Rightarrow> (Inl (Wrapf profileErr ''Failed to call lambda profile decorator''), ctx)
         | None \<Rightarrow>
             (let ctx1 = (case RoleDefinition eachLambdaInfo of
                            None \<Rightarrow> ctx
                          | Some rd \<Rightarrow>
                              registerRoleDefinition
                                (logicalName w rd (serviceName (userdata ctx))
                                   (lambdaFunctionName eachLambdaInfo)) ctx);
                  ctx2 = registerCustomResourceRoles w (customResources eachLambdaInfo) ctx1
              in assembleRoles w rest names2 ctx2))"

text \<open>The second loop: one \<open>GetRole\<close> for each literal role name that is not cached.\<close>

fun checkRoleNames ::
  "world \<Rightarrow> string list \<Rightarrow> workflowContext \<Rightarrow> error option \<times> workflowContext" where
  "checkRoleNames w [] ctx = (None, ctx)"
| "checkRoleNames w (eachRoleName # rest) ctx =
     (case lambdaIAMRoleNameMap (context ctx) eachRoleName of
        Some _ \<Rightarrow> checkRoleNames w rest ctx
      | None \<Rightarrow>
          (let ctx1 = logEvent (EvRemote (IAM_GetRole eachRoleName)) ctx
           in case iam_GetRole w eachRoleName of
                Inl err \<Rightarrow> (Some err, ctx1)
              | Inr arn \<Rightarrow> checkRoleNames w rest (cacheRole eachRoleName (StringLit arn) ctx1)))"

type_synonym stepResult = "(workflowStep option \<times> error option) outcome \<times> workflowContext"

definition verifyIAMRoles :: "world \<Rightarrow> workflowContext \<Rightarrow> stepResult" where
  "verifyIAMRoles w ctx0 =
     deferRecordDuration ''Verifying IAM roles''
       (let ctx = ctx0\<lparr>context := (context ctx0)\<lparr>lambdaIAMRoleNameMap := Map.empty\<rparr>\<rparr>;
            assembled = assembleRoles w (lambdaAWSInfos (userdata ctx)) [] ctx
        in case fst assembled of
             Inl err \<Rightarrow> (Return (None, Some err), snd assembled)
           | Inr allRoleNames \<Rightarrow>
               (let checked = checkRoleNames w allRoleNames (snd assembled)
                in case fst checked of
                     Some err \<Rightarrow> (Return (None, Some err), snd checked)
                   | None \<Rightarrow> (Return (Some VerifyAWSPreconditions, None), snd checked)))"

subsection \<open>Step 2: verify the AWS preconditions\<close>

text \<open>
  The versioning and region checks run only when this is not a dry run and there is at
  least one Lambda function. The comparison of the CodePipeline environments only logs
  a warning and is left out.
\<close>

definition verifyAWSPreconditions :: "world \<Rightarrow> workflowContext \<Rightarrow> stepResult" where
  "verifyAWSPreconditions w ctx =
     deferRecordDuration ''Verifying AWS preconditions''
       (if noop (userdata ctx) then (Return (Some CreatePackageStep, None), ctx)
        else if length (lambdaAWSInfos (userdata ctx)) \<noteq> 0 then
          (let bucket = s3Bucket (userdata ctx);
               ctx1 = logEvent (EvRemote (S3_BucketVersioningEnabled bucket)) ctx
           in case s3_BucketVersioningEnabled w bucket of
                Inl versioningPolicyErr \<Rightarrow> (Return (None, Some versioningPolicyErr), ctx1)
              | Inr isEnabled \<Rightarrow>
                  (let ctx2 = ctx1\<lparr>context := (context ctx1)\<lparr>s3BucketVersioningEnabled := isEnabled\<rparr>\<rparr>
                   in if codePipelineTrigger (userdata ctx) \<noteq> [] \<and> \<not> isEnabled then
                        (Return (None, Some (Err (''s3 Bucket ('' @ bucket @
                            '') for CodePipeline trigger doesn't have a versioning policy enabled''))), ctx2)
                      else
                        (let ctx3 = logEvent (EvRemote (S3_BucketRegion bucket)) ctx2
                         in case s3_BucketRegion w bucket of
                              Inl bucketRegionErr \<Rightarrow>
                                (Return (None, Some (Errorf (''failed to determine region for '' @ bucket
                                    @ ''. Error: %s'') [bucketRegionErr])), ctx3)
                            | Inr bucketRegion \<Rightarrow>
                                if bucketRegion \<noteq> sessionRegion w then
                                  (Return (None, Some (Err (''region ('' @ sessionRegion w @
                                      '') does not match bucket region ('' @ bucketRegion @ '')''))), ctx3)
                                else (Return (Some CreatePackageStep, None), ctx3))))
        else (Return (Some CreatePackageStep, None), ctx))"

subsection \<open>Returning at the first error\<close>

text \<open>The pattern \<open>if err != nil { return nil, err }\<close> of the steps.\<close>

definition andThen ::
  "error option \<times> workflowContext \<Rightarrow> (workflowContext \<Rightarrow> stepResult) \<Rightarrow> stepResult" where
  "andThen r k = (case fst r of Some err \<Rightarrow> (Return (None, Some err), snd r) | None \<Rightarrow> k (snd r))"

definition wrapErr :: "string \<Rightarrow> error option \<Rightarrow> error option" where
  "wrapErr msg r = (case r of None \<Rightarrow> None | Some err \<Rightarrow> Some (Wrapf err msg))"

text \<open>A hook phase is called only when workflow hooks were supplied.\<close>

definition hookPhase ::
  "world \<Rightarrow> string \<Rightarrow> (WorkflowHooks \<Rightarrow> hookHandler option) \<Rightarrow> (WorkflowHooks \<Rightarrow> hookHandler list)
     \<Rightarrow> workflowContext \<Rightarrow> error option \<times> workflowContext" where
  "hookPhase w phase single many ctx =
     (case workflowHooks (userdata ctx) of
        None \<Rightarrow> (None, ctx)
      | Some hooks \<Rightarrow> callWorkflowHook w phase (single hooks) (many hooks) ctx)"

subsection \<open>Step 3: build and package\<close>

definition createPackageStep :: "world \<Rightarrow> workflowContext \<Rightarrow> stepResult" where
  "createPackageStep w ctx =
     deferRecordDuration ''Creating code bundle''
       (andThen (hookPhase w ''PreBuild'' PreBuild PreBuilds ctx) (\<lambda>ctx.
        andThen (localOp w ''system.BuildGoBinary'', ctx) (\<lambda>ctx.
        andThen (hookPhase w ''PostBuild'' PostBuild PostBuilds ctx) (\<lambda>ctx.
        case system_TemporaryFile w (sanitizedName w (serviceName (userdata ctx)) @ ''-code.zip'') of
          Inl err \<Rightarrow> (Return (None, Some err), ctx)
        | Inr tmpFile \<Rightarrow>
            andThen (callArchiveHook w ctx) (\<lambda>ctx.
            andThen (localOp w ''spartaZip.AnnotateAddToZip'', ctx) (\<lambda>ctx.
            andThen (localOp w ''lambdaArchive.Close'', ctx) (\<lambda>ctx.
            andThen (localOp w ''tmpFile.Close'', ctx) (\<lambda>ctx.
            (Return (Some (CreateUploadStep tmpFile), None), ctx)))))))))"

subsection \<open>The worker pool\<close>

text \<open>
  Modelled from the spec: the worker pool (\<open>newWorkerPool\<close>, \<open>Run\<close>) is defined in
  another file of the repository. It runs every task, with no ordering among them, waits
  for all of them and returns the errors of the tasks that failed. The model runs the
  tasks in task order, each on the context the previous one left.
\<close>

fun workerPool_Run ::
  "('t \<Rightarrow> workflowContext \<Rightarrow> error option \<times> workflowContext) \<Rightarrow> 't list \<Rightarrow> workflowContext
     \<Rightarrow> error list \<times> workflowContext" where
  "workerPool_Run run [] ctx = ([], ctx)"
| "workerPool_Run run (task # tasks) ctx =
     (let r = run task ctx;
          rs = workerPool_Run run tasks (snd r)
      in ((case fst r of None \<Rightarrow> [] | Some err \<Rightarrow> [err]) @ fst rs, snd rs))"

subsection \<open>Step 4: upload\<close>

datatype uploadTask = UploadBinaryTask string | UploadSiteTask string

definition uploadBinaryTask :: "world \<Rightarrow> string \<Rightarrow> workflowContext \<Rightarrow> error option \<times> workflowContext" where
  "uploadBinaryTask w packagePath ctx =
     (let uploaded = uploadLocalFileToS3 w packagePath [] ctx
      in case fst uploaded of
           Inl zipS3URLErr \<Rightarrow> (Some zipS3URLErr, snd uploaded)
         | Inr zipS3URL \<Rightarrow>
             (None, (snd uploaded)\<lparr>context := (context (snd uploaded))\<lparr>s3CodeZipURL :=
                       newS3UploadURL w zipS3URL\<rparr>\<rparr>))"

definition uploadSiteTask :: "world \<Rightarrow> string \<Rightarrow> workflowContext \<Rightarrow> error option \<times> workflowContext" where
  "uploadSiteTask w resources ctx =
     (case system_TemporaryFile w (serviceName (userdata ctx) @ ''-S3Site.zip'') of
        Inl err \<Rightarrow> (Some (Wrapf err ''Failed to create temporary S3 site archive file''), ctx)
      | Inr tmpFile \<Rightarrow>
          (case localOp w ''filepath.Abs'' of
             Some err \<Rightarrow> (Some (Wrapf err ''Failed to get absolute filepath''), ctx)
           | None \<Rightarrow>
          (case localOp w ''os.Stat'' of
             Some existsErr \<Rightarrow>
               (Some (Wrapf existsErr (''TheS3 Site resources directory ('' @ resources
                                       @ '') does not exist'')), ctx)
           | None \<Rightarrow>
          (case localOp w ''spartaZip.AddToZip'' of
             Some err \<Rightarrow> (Some err, ctx)
           | None \<Rightarrow>
          (case localOp w ''zipArchive.Close'' of
             Some errClose \<Rightarrow> (Some errClose, ctx)
           | None \<Rightarrow>
               (let uploaded = uploadLocalFileToS3 w tmpFile [] ctx
                in case fst uploaded of
                     Inl s3SiteLambdaZipURLErr \<Rightarrow>
                       (Some (Wrapf s3SiteLambdaZipURLErr ''Failed to upload local file to S3''),
                        snd uploaded)
                   | Inr s3SiteLambdaZipURL \<Rightarrow>
                       (None, (snd uploaded)\<lparr>userdata := (userdata (snd uploaded))\<lparr>s3SiteContext :=
                          (s3SiteContext (userdata (snd uploaded)))\<lparr>s3UploadURL :=
                             newS3UploadURL w s3SiteLambdaZipURL\<rparr>\<rparr>\<rparr>)))))))"

definition runUploadTask :: "world \<Rightarrow> uploadTask \<Rightarrow> workflowContext \<Rightarrow> error option \<times> workflowContext" where
  "runUploadTask w task ctx =
     (case task of
        UploadBinaryTask packagePath \<Rightarrow> uploadBinaryTask w packagePath ctx
      | UploadSiteTask resources \<Rightarrow> uploadSiteTask w resources ctx)"

definition createUploadStep :: "world \<Rightarrow> string \<Rightarrow> workflowContext \<Rightarrow> stepResult" where
  "createUploadStep w packagePath ctx =
     deferRecordDuration ''Uploading code''
       (let uploadTasks =
              (if length (lambdaAWSInfos (userdata ctx)) \<noteq> 0 then [UploadBinaryTask packagePath] else [])
              @ (case s3Site (s3SiteContext (userdata ctx)) of
                   None \<Rightarrow> []
                 | Some resources \<Rightarrow> [UploadSiteTask resources]);
            ran = workerPool_Run (runUploadTask w) uploadTasks ctx
        in if length (fst ran) > 0 then
             (Return (None, Some (Errorf ''Encountered multiple errors during upload: %#v'' (fst ran))),
              snd ran)
           else (Return (Some ValidateSpartaPostconditions, None), snd ran))"

subsection \<open>Step 5: validate the postconditions\<close>

definition resourceErrors :: "string list \<Rightarrow> string \<Rightarrow> resourceProperties \<Rightarrow> error list" where
  "resourceErrors requiredEnvVars eachResourceID eachResourceDef =
     (case eachResourceDef of
        LambdaFunction environment \<Rightarrow>
          (case environment of
             None \<Rightarrow>
               [Err (''Lambda function '' @ eachResourceID @ '' does not include environment info'')]
           | Some variables \<Rightarrow>
               (case variables of
                  OtherVariables typeName \<Rightarrow>
                    [Err (''Lambda function '' @ eachResourceID
                          @ '' environment vars are unsupported type: '' @ typeName)]
                | MapStringInterface vars \<Rightarrow>
                    map (\<lambda>eachKey. Err (''Lambda function '' @ eachResourceID
                                       @ '' environment does not include key: '' @ eachKey))
                      (filter (\<lambda>eachKey. map_of vars eachKey = None) requiredEnvVars)))
      | _ \<Rightarrow> [])"

definition requiredEnvVars :: "world \<Rightarrow> string list" where
  "requiredEnvVars w = [envVarDiscoveryInformation w, envVarLogLevel w]"

definition validateErrs :: "world \<Rightarrow> template \<Rightarrow> error list" where
  "validateErrs w t = concat (map (\<lambda>(eachResourceID, eachResourceDef).
      resourceErrors (requiredEnvVars w) eachResourceID eachResourceDef) t)"

definition validateSpartaPostconditions :: "world \<Rightarrow> workflowContext \<Rightarrow> stepResult" where
  "validateSpartaPostconditions w ctx =
     (let errs = validateErrs w (cfTemplate (context ctx))
      in if length errs \<noteq> 0 then
           (Return (None, Some (Errorf ''Problems validating template contents: %v'' errs)), ctx)
         else (Return (Some EnsureCloudFormationStack, None), ctx))"

subsection \<open>In-place updates of the function code\<close>

text \<open>
  The loop over the changes of the change set. A \<open>Modify\<close> of a Lambda function
  becomes an update request; its key is read with \<open>ctx.context.s3CodeZipURL.keyName()\<close>,
  which dereferences the pointer, so a \<open>nil\<close> upload location panics there. Any
  other change is recorded as an invalid request.
\<close>

definition isFunctionCodeChange :: "change \<Rightarrow> bool" where
  "isFunctionCodeChange resourceChange \<longleftrightarrow>
     Action resourceChange = ''Modify'' \<and> ResourceType resourceChange = ''AWS::Lambda::Function''"

definition invalidInPlaceRequest :: "change \<Rightarrow> string" where
  "invalidInPlaceRequest resourceChange =
     Action resourceChange @ '' for '' @ LogicalResourceId resourceChange
       @ '' (ResourceType: '' @ ResourceType resourceChange @ '')''"

fun classifyChanges ::
  "workflowContext \<Rightarrow> change list \<Rightarrow> updateFunctionCodeInput list \<Rightarrow> string list
     \<Rightarrow> (updateFunctionCodeInput list \<times> string list) outcome" where
  "classifyChanges ctx [] updateCodeRequests invalidInPlaceRequests =
     Return (updateCodeRequests, invalidInPlaceRequests)"
| "classifyChanges ctx (resourceChange # rest) updateCodeRequests invalidInPlaceRequests =
     (if isFunctionCodeChange resourceChange then
        (case s3CodeZipURL (context ctx) of
           None \<Rightarrow> Panic ''invalid memory address or nil pointer dereference''
         | Some url \<Rightarrow>
             classifyChanges ctx rest
               (updateCodeRequests @
                  [\<lparr>FunctionName = PhysicalResourceId resourceChange,
                    S3Bucket = s3Bucket (userdata ctx),
                    S3Key = keyName url,
                    S3ObjectVersion = (if version url \<noteq> [] then Some (version url) else None)\<rparr>])
               invalidInPlaceRequests)
      else
        classifyChanges ctx rest updateCodeRequests
          (invalidInPlaceRequests @ [invalidInPlaceRequest resourceChange]))"

datatype inPlaceTask = UpdateTask updateFunctionCodeInput | DeleteChangeSetTask

definition runInPlaceTask ::
  "world \<Rightarrow> string \<Rightarrow> inPlaceTask \<Rightarrow> workflowContext \<Rightarrow> error option \<times> workflowContext" where
  "runInPlaceTask w changeSetRequestName task ctx =
     (case task of
        UpdateTask request \<Rightarrow>
          (lambda_UpdateFunctionCode w request, logEvent (EvRemote (Lambda_UpdateFunctionCode request)) ctx)
      | DeleteChangeSetTask \<Rightarrow>
          (cf_DeleteChangeSet w (serviceName (userdata ctx)) changeSetRequestName,
           logEvent (EvRemote (CF_DeleteChangeSet (serviceName (userdata ctx)) changeSetRequestName)) ctx))"

definition unsupportedInPlace :: "string list \<Rightarrow> error" where
  "unsupportedInPlace invalidInPlaceRequests =
     Err (''unsupported in-place operations detected:'' @ [CHR 0x0A, CHR 0x09]
          @ strings_Join invalidInPlaceRequests ('','' @ [CHR 0x0A, CHR 0x09]))"

definition applyInPlaceFunctionUpdates ::
  "world \<Rightarrow> workflowContext \<Rightarrow> string \<Rightarrow> (error + string) outcome \<times> workflowContext" where
  "applyInPlaceFunctionUpdates w ctx0 templateURL =
     (let changeSetRequestName =
            CloudFormationResourceName w (serviceName (userdata ctx0) @ ''InPlaceChangeSet'');
          ctx = logEvent (EvRemote (CF_CreateStackChangeSet changeSetRequestName
                            (serviceName (userdata ctx0)) templateURL)) ctx0
      in case cf_CreateStackChangeSet w changeSetRequestName (serviceName (userdata ctx))
                (cfTemplate (context ctx)) templateURL of
           Inl changesErr \<Rightarrow> (Return (Inl changesErr), ctx)
         | Inr changes \<Rightarrow>
             (case changes of
                None \<Rightarrow> (Return (Inl (Err ''no changes detected'')), ctx)
              | Some chs \<Rightarrow>
                  if length chs \<le> 0 then (Return (Inl (Err ''no changes detected'')), ctx)
                  else
                    (case classifyChanges ctx chs [] [] of
                       Panic p \<Rightarrow> (Panic p, ctx)
                     | Return classified \<Rightarrow>
                         if length (snd classified) \<noteq> 0 then
                           (Return (Inl (unsupportedInPlace (snd classified))), ctx)
                         else
                           (let inPlaceUpdateTasks = map UpdateTask (fst classified) @ [DeleteChangeSetTask];
                                ran = workerPool_Run (runInPlaceTask w changeSetRequestName)
                                        inPlaceUpdateTasks ctx
                            in if length (fst ran) \<noteq> 0 then
                                 (Return (Inl (Errorf ''failed to update function code: %v'' (fst ran))),
                                  snd ran)
                               else
                                 (let ctx1 = logEvent (EvRemote (CF_DescribeStacks
                                                         (serviceName (userdata ctx)))) (snd ran)
                                  in case cf_DescribeStacks w (serviceName (userdata ctx)) of
                                       Inl describeStackOutputErr \<Rightarrow>
                                         (Return (Inl describeStackOutputErr), ctx1)
                                     | Inr stacks \<Rightarrow>
                                         (case stacks of
                                            [] \<Rightarrow> (Panic ''index out of range'', ctx1)
                                          | stack # _ \<Rightarrow> (Return (Inr stack), ctx1)))))))"

subsection \<open>Applying the template\<close>

text \<open>The timeout of a stack operation, in minutes.\<close>

definition maximumStackOperationTimeout :: "template \<Rightarrow> nat" where
  "maximumStackOperationTimeout t =
     (if \<exists>eachResource \<in> set t. CfnResourceType (snd eachResource) = ''AWS::CloudFront::Distribution''
      then 60 else 20)"

fun firstError :: "world \<Rightarrow> string list \<Rightarrow> error option" where
  "firstError w [] = None"
| "firstError w (name # names) =
     (case localOp w name of Some err \<Rightarrow> Some err | None \<Rightarrow> firstError w names)"

definition createCodePipelineTriggerPackage :: "world \<Rightarrow> workflowContext \<Rightarrow> error + string" where
  "createCodePipelineTriggerPackage w ctx =
     (case system_TemporaryFile w (codePipelineTrigger (userdata ctx)) of
        Inl err \<Rightarrow> Inl (Wrapf err ''Failed to create temporary file for CodePipeline'')
      | Inr tmpFile \<Rightarrow>
          (case firstError w [''templateArchive.Create'', ''io.Copy'', ''codePipelineEnvironments'',
                              ''templateArchive.Close'', ''tmpFile.Close''] of
             Some err \<Rightarrow> Inl err
           | None \<Rightarrow> Inr tmpFile))"

definition applyCloudFormationOperation :: "world \<Rightarrow> workflowContext \<Rightarrow> stepResult" where
  "applyCloudFormationOperation w ctx =
     andThen (localOp w ''json.Marshal'', ctx) (\<lambda>ctx.
     case system_TemporaryFile w (sanitizedName w (serviceName (userdata ctx)) @ ''-cftemplate.json'') of
       Inl templateFileErr \<Rightarrow> (Return (None, Some templateFileErr), ctx)
     | Inr templateFile \<Rightarrow>
         andThen (localOp w ''templateFile.Write'', ctx) (\<lambda>ctx.
         andThen (localOp w ''templateFile.Close'', ctx) (\<lambda>ctx.
         andThen (localOp w ''json.MarshalIndent'', ctx) (\<lambda>ctx.
         andThen (wrapErr ''Failed to write template'' (localOp w ''io.WriteString''), ctx) (\<lambda>ctx.
         if codePipelineTrigger (userdata ctx) = [] then
           (if noop (userdata ctx) then (Return (None, None), ctx)
            else
              (let uploaded = uploadLocalFileToS3 w templateFile [] ctx;
                   ctx1 = snd uploaded
               in case fst uploaded of
                    Inl uploadURLErr \<Rightarrow> (Return (None, Some uploadURLErr), ctx1)
                  | Inr uploadURL \<Rightarrow>
                      if inPlace (userdata ctx1) then
                        (let applied = applyInPlaceFunctionUpdates w ctx1 uploadURL
                         in case fst applied of
                              Panic p \<Rightarrow> (Panic p, snd applied)
                            | Return (Inl stackErr) \<Rightarrow> (Return (None, Some stackErr), snd applied)
                            | Return (Inr stack) \<Rightarrow> (Return (None, None), snd applied))
                      else
                        (let ctx2 = logEvent (EvRemote (CF_ConvergeStackState
                                                (serviceName (userdata ctx1)) uploadURL)) ctx1
                         in case cf_ConvergeStackState w (serviceName (userdata ctx1))
                                   (cfTemplate (context ctx1)) uploadURL
                                   (maximumStackOperationTimeout (cfTemplate (context ctx1))) of
                              Inl stackErr \<Rightarrow> (Return (None, Some stackErr), ctx2)
                            | Inr stack \<Rightarrow> (Return (None, None), ctx2))))
         else
           (let ctx1 = registerFileCleanupFinalizer templateFile ctx
            in case createCodePipelineTriggerPackage w ctx1 of
                 Inl urlErr \<Rightarrow> (Return (None, Some urlErr), ctx1)
               | Inr _ \<Rightarrow> (Return (None, None), ctx1)))))))"

subsection \<open>Step 6: ensure the CloudFormation stack\<close>

text \<open>
  The exports and annotations are defined in other files; each returns the template it
  leaves or an error (\<open>templateOp\<close>). \<open>verifyLambdaPreconditions\<close> returns \<open>nil\<close>
  for every function.
\<close>

definition verifyLambdaPreconditions :: "LambdaAWSInfo \<Rightarrow> error option" where
  "verifyLambdaPreconditions lambdaAWSInfo = None"

definition editTemplate ::
  "world \<Rightarrow> string \<Rightarrow> string \<Rightarrow> workflowContext \<Rightarrow> error option \<times> workflowContext" where
  "editTemplate w operation subject ctx =
     (case templateOp w operation subject (codeZipKey (s3CodeZipURL (context ctx)))
             (codeZipVersion (s3CodeZipURL (context ctx))) (cfTemplate (context ctx)) of
        Inl err \<Rightarrow> (Some err, ctx)
      | Inr t \<Rightarrow> (None, setTemplate t ctx))"

fun exportLambdas :: "world \<Rightarrow> LambdaAWSInfo list \<Rightarrow> workflowContext \<Rightarrow> error option \<times> workflowContext" where
  "exportLambdas w [] ctx = (None, ctx)"
| "exportLambdas w (eachEntry # rest) ctx =
     (case verifyLambdaPreconditions eachEntry of
        Some verifyErr \<Rightarrow> (Some verifyErr, ctx)
      | None \<Rightarrow>
          (let exported = editTemplate w ''export'' (lambdaFunctionName eachEntry) ctx
           in case fst exported of
                Some err \<Rightarrow> (Some err, snd exported)
              | None \<Rightarrow> exportLambdas w rest (snd exported)))"

definition exportAPI :: "world \<Rightarrow> workflowContext \<Rightarrow> error option \<times> workflowContext" where
  "exportAPI w ctx =
     (case api (userdata ctx) of
        None \<Rightarrow> (None, ctx)
      | Some gateway \<Rightarrow>
          (case templateOp w ''api.Marshal'' gateway (codeZipKey (s3CodeZipURL (context ctx)))
                  (codeZipVersion (s3CodeZipURL (context ctx))) [] of
             Inl err \<Rightarrow> (Some (Wrapf err ''APIGateway template export failed''), ctx)
           | Inr apiGatewayTemplate \<Rightarrow>
               (let merged = safeMerge w apiGatewayTemplate (cfTemplate (context ctx));
                    ctx1 = setTemplate (snd merged) ctx
                in if length (fst merged) \<noteq> 0 then
                     (Some (Wrapf (Errorf ''APIGateway template merge failed: %v'' (fst merged))
                              ''APIGateway template export failed''), ctx1)
                   else (None, ctx1))))"

fun annotateCustomResources :: "world \<Rightarrow> customResourceInfo list \<Rightarrow> error option" where
  "annotateCustomResources w [] = None"
| "annotateCustomResources w (eachCustomResource # rest) =
     (case localOp w ''discoveryInfoForResource'' of
        Some discoveryInfoErr \<Rightarrow> Some discoveryInfoErr
      | None \<Rightarrow> annotateCustomResources w rest)"

fun annotateLambdas :: "world \<Rightarrow> LambdaAWSInfo list \<Rightarrow> workflowContext \<Rightarrow> error option \<times> workflowContext" where
  "annotateLambdas w [] ctx = (None, ctx)"
| "annotateLambdas w (eachEntry # rest) ctx =
     (let discovery = editTemplate w ''annotateDiscoveryInfo'' (lambdaFunctionName eachEntry) ctx
      in case fst discovery of
           Some annotateErr \<Rightarrow> (Some annotateErr, snd discovery)
         | None \<Rightarrow>
             (let build = editTemplate w ''annotateBuildInformation'' (lambdaFunctionName eachEntry)
                            (snd discovery)
              in case fst build of
                   Some annotateErr \<Rightarrow> (Some annotateErr, snd build)
                 | None \<Rightarrow>
                     (case annotateCustomResources w (customResources eachEntry) of
                        Some discoveryInfoErr \<Rightarrow> (Some discoveryInfoErr, snd build)
                      | None \<Rightarrow> annotateLambdas w rest (snd build))))"

text \<open>The site is exported with \<open>s3UploadURL.keyName()\<close>, again through the pointer.\<close>

definition exportSite ::
  "world \<Rightarrow> workflowContext \<Rightarrow> (workflowContext \<Rightarrow> stepResult) \<Rightarrow> stepResult" where
  "exportSite w ctx k =
     (case s3Site (s3SiteContext (userdata ctx)) of
        None \<Rightarrow> k ctx
      | Some resources \<Rightarrow>
          (case s3UploadURL (s3SiteContext (userdata ctx)) of
             None \<Rightarrow> (Panic ''invalid memory address or nil pointer dereference'', ctx)
           | Some url \<Rightarrow>
               (let exported = editTemplate w ''s3Site.export'' (keyName url) ctx
                in andThen (wrapErr ''Failed to export S3 site'' (fst exported), snd exported) k)))"

definition validationPhase :: "world \<Rightarrow> workflowContext \<Rightarrow> error option \<times> workflowContext" where
  "validationPhase w ctx =
     (case workflowHooks (userdata ctx) of
        None \<Rightarrow> (None, ctx)
      | Some hooks \<Rightarrow> callValidationHooks w (Validators hooks) (cfTemplate (context ctx)) ctx)"

definition ensureCloudFormationStack :: "world \<Rightarrow> workflowContext \<Rightarrow> stepResult" where
  "ensureCloudFormationStack w ctx =
     deferRecordDuration
       (if inPlace (userdata ctx) then ''Updating Lambda function code ''
        else ''Ensuring CloudFormation stack'')
       (andThen (hookPhase w ''PreMarshall'' PreMarshall PreMarshalls ctx) (\<lambda>ctx.
        andThen (exportLambdas w (lambdaAWSInfos (userdata ctx)) ctx) (\<lambda>ctx.
        andThen (exportAPI w ctx) (\<lambda>ctx.
        andThen (callServiceDecoratorHook w ctx) (\<lambda>ctx.
        andThen (annotateLambdas w (lambdaAWSInfos (userdata ctx)) ctx) (\<lambda>ctx.
        exportSite w ctx (\<lambda>ctx.
        andThen (hookPhase w ''PostMarshall'' PostMarshall PostMarshalls ctx) (\<lambda>ctx.
        andThen (let annotated = editTemplate w ''annotateMaterializedTemplate'' [] ctx
                 in (wrapErr ''Failed to perform final template annotations'' (fst annotated),
                     snd annotated)) (\<lambda>ctx.
        andThen (validationPhase w ctx) (\<lambda>ctx.
        applyCloudFormationOperation w ctx))))))))))"

subsection \<open>Provision: the loop over the steps, rollback and finalizers\<close>

definition invoke :: "world \<Rightarrow> workflowStep \<Rightarrow> workflowContext \<Rightarrow> stepResult" where
  "invoke w step ctx =
     (case step of
        VerifyIAMRoles \<Rightarrow> verifyIAMRoles w ctx
      | VerifyAWSPreconditions \<Rightarrow> verifyAWSPreconditions w ctx
      | CreatePackageStep \<Rightarrow> createPackageStep w ctx
      | CreateUploadStep packagePath \<Rightarrow> createUploadStep w packagePath ctx
      | ValidateSpartaPostconditions \<Rightarrow> validateSpartaPostconditions w ctx
      | EnsureCloudFormationStack \<Rightarrow> ensureCloudFormationStack w ctx)"

datatype loopExit =
    Completed            \<comment> \<open>a step returned \<open>nil, nil\<close>: the loop breaks\<close>
  | Failed error         \<comment> \<open>a step returned an error: rollback, then \<open>Provision\<close> returns\<close>
  | Panicked string

text \<open>
  The loop \<open>for step := verifyIAMRoles; step != nil;\<close>. A step is bounded by the
  number of iterations left; \<open>None\<close> means that the bound was reached.
\<close>

fun workflowLoop ::
  "nat \<Rightarrow> world \<Rightarrow> workflowStep \<Rightarrow> workflowContext \<Rightarrow> (loopExit \<times> workflowContext) option" where
  "workflowLoop 0 w step ctx = None"
| "workflowLoop (Suc fuel) w step ctx =
     (let r = invoke w step (logEvent (EvStep step) ctx)
      in case fst r of
           Panic p \<Rightarrow> Some (Panicked p, snd r)
         | Return (next, Some err) \<Rightarrow>
             Some (Failed err, rollback (logEvent (EvStepError err) (snd r)))
         | Return (None, None) \<Rightarrow> Some (Completed, snd r)
         | Return (Some nextStep, None) \<Rightarrow> workflowLoop fuel w nextStep (snd r))"

text \<open>The context that \<open>Provision\<close> builds from its arguments.\<close>

definition newWorkflowContext ::
  "bool \<Rightarrow> string \<Rightarrow> LambdaAWSInfo list \<Rightarrow> string option \<Rightarrow> string option \<Rightarrow> string \<Rightarrow> bool
     \<Rightarrow> string \<Rightarrow> WorkflowHooks option \<Rightarrow> workflowContext" where
  "newWorkflowContext noopArg serviceNameArg lambdas apiArg site bucket inPlaceUpdates trigger hooks =
     \<lparr>userdata = \<lparr>noop = noopArg, inPlace = inPlaceUpdates, serviceName = serviceNameArg,
                   lambdaAWSInfos = lambdas, workflowHooks = hooks, codePipelineTrigger = trigger,
                   api = apiArg, s3SiteContext = \<lparr>s3Site = site, s3UploadURL = None\<rparr>,
                   s3Bucket = bucket\<rparr>,
      context = \<lparr>s3CodeZipURL = None, lambdaIAMRoleNameMap = Map.empty, cfTemplate = [],
                  s3BucketVersioningEnabled = False\<rparr>,
      transaction = \<lparr>rollbackFunctions = [], finalizerFunctions = [], stepDurations = []\<rparr>,
      trace = [],
      clock = 0\<rparr>"

text \<open>The finalizers run one after the other, in the order of registration.\<close>

definition runFinalizers :: "workflowContext \<Rightarrow> workflowContext" where
  "runFinalizers ctx = ctx\<lparr>trace := trace ctx @ map EvFinalizer (finalizerFunctions (transaction ctx))\<rparr>"

definition noFunctionsMessage :: string where
  "noFunctionsMessage = ''No lambda functions provided to Sparta.Provision()''"

text \<open>
  \<open>Provision\<close> returns its error (\<open>None\<close> for \<open>nil\<close>) or panics; the model also
  returns the context at that point. When a step fails, \<open>Provision\<close> returns right
  after the rollback.
\<close>

definition Provision ::
  "nat \<Rightarrow> world \<Rightarrow> bool \<Rightarrow> string \<Rightarrow> LambdaAWSInfo list \<Rightarrow> string option \<Rightarrow> string option \<Rightarrow> string
     \<Rightarrow> bool \<Rightarrow> string \<Rightarrow> WorkflowHooks option \<Rightarrow> (error option outcome \<times> workflowContext) option" where
  "Provision fuel w noopArg serviceNameArg lambdas apiArg site bucket inPlaceUpdates trigger hooks =
     (let ctx = newWorkflowContext noopArg serviceNameArg lambdas apiArg site bucket
                  inPlaceUpdates trigger hooks
      in case validateSpartaPreconditions w lambdas of
           Some err \<Rightarrow> Some (Return (Some (Wrapf err ''Failed to validate preconditions'')), ctx)
         | None \<Rightarrow>
             if length lambdas \<le> 0 \<and> hooks = None then
               Some (Return (Some (Err noFunctionsMessage)), ctx)
             else
               (let ctx1 = (if length lambdas \<le> 0 then logEvent (EvWarn noFunctionsMessage) ctx else ctx)
                in case workflowLoop fuel w VerifyIAMRoles ctx1 of
                     None \<Rightarrow> None
                   | Some (Panicked p, ctx2) \<Rightarrow> Some (Panic p, ctx2)
                   | Some (Failed err, ctx2) \<Rightarrow>
                       Some (Return (Some (Wrapf err ''Failed to provision service'')), ctx2)
                   | Some (Completed, ctx2) \<Rightarrow> Some (Return None, runFinalizers ctx2)))"

subsection \<open>Auxiliary definitions for the proofs\<close>

definition digit_val :: "char \<Rightarrow> nat" where
  "digit_val c = of_char c - 48"

definition undecimal :: "string \<Rightarrow> nat" where
  "undecimal s = foldl (\<lambda>a c. 10 * a + digit_val c) 0 s"

definition stepRank :: "workflowStep \<Rightarrow> nat" where
  "stepRank s =
     (case s of VerifyIAMRoles \<Rightarrow> 0 | VerifyAWSPreconditions \<Rightarrow> 1 | CreatePackageStep \<Rightarrow> 2
      | CreateUploadStep _ \<Rightarrow> 3 | ValidateSpartaPostconditions \<Rightarrow> 4 | EnsureCloudFormationStack \<Rightarrow> 5)"

text \<open>A stand-in digest for concrete runs: the bytes written.\<close>

definition byteHash :: "string \<Rightarrow> 8 word list" where
  "byteHash s = map of_char s"

subsection \<open>A concrete world and concrete inputs\<close>

text \<open>
  A world in which every collaborator succeeds: the session is in \<open>us-west-2\<close>, as is
  the bucket, which has no versioning; every role exists; the change set is empty.
  The digest is a stand-in and the clock ticks one nanosecond per reading.
\<close>

definition unixBase :: "string \<Rightarrow> string" where
  "unixBase p = rev (takeWhile (\<lambda>c. c \<noteq> CHR ''/'') (rev p))"

definition urlPath :: "string \<Rightarrow> string" where
  "urlPath s = dropWhile (\<lambda>c. c \<noteq> CHR ''/'') (drop 8 s)"

definition world0 :: world where
  "world0 =
     \<lparr>sha1_Sum = byteHash,
      time_Now_UnixNano = (\<lambda>n. 1557000000000000000 + of_nat n),
      url_Parse = (\<lambda>s. Inr (urlPath s, [])),
      url_ParseQuery = (\<lambda>q. Inr (\<lambda>k. [])),
      filepath_Base = unixBase,
      validateSpartaPreconditions = (\<lambda>lambdas. None),
      profileDecorator = None,
      logicalName = (\<lambda>rd service fn. ''IAMRole'' @ rd),
      envVarDiscoveryInformation = ''SPARTA_DISCOVERY_INFO'',
      envVarLogLevel = ''SPARTA_LOG_LEVEL'',
      sanitizedName = (\<lambda>s. s),
      CloudFormationResourceName = (\<lambda>s. s),
      sessionRegion = ''us-west-2'',
      iam_GetRole = (\<lambda>n. Inr (''arn:aws:iam::123456789012:role/'' @ n)),
      s3_BucketVersioningEnabled = (\<lambda>b. Inr False),
      s3_BucketRegion = (\<lambda>b. Inr ''us-west-2''),
      s3_UploadLocalFileToS3 = (\<lambda>p b k. Inr (''https://'' @ b @ ''.s3.amazonaws.com/'' @ k)),
      cf_CreateStackChangeSet = (\<lambda>name stack t url. Inr (Some [])),
      lambda_UpdateFunctionCode = (\<lambda>request. None),
      cf_DeleteChangeSet = (\<lambda>stack name. None),
      cf_DescribeStacks = (\<lambda>stack. Inr [stack]),
      cf_ConvergeStackState = (\<lambda>stack t url timeout. Inr stack),
      system_TemporaryFile = (\<lambda>name. Inr (''.sparta/'' @ name)),
      localOp = (\<lambda>name. None),
      templateOp = (\<lambda>operation subject key v t. Inr t),
      safeMerge = (\<lambda>src dst. ([], dst @ src)),
      decorateWorkflow = (\<lambda>phase h. None),
      decorateArchive = (\<lambda>h. None),
      decorateService = (\<lambda>h. Inr []),
      validateService = (\<lambda>h t. None)\<rparr>"

text \<open>The context of a run for the service \<open>svc\<close> with the bucket \<open>bucket\<close>.\<close>

definition ctx0 :: "bool \<Rightarrow> LambdaAWSInfo list \<Rightarrow> WorkflowHooks option \<Rightarrow> workflowContext" where
  "ctx0 dryRun lambdas hooks =
     newWorkflowContext dryRun ''svc'' lambdas None None ''bucket'' False [] hooks"

definition helloLambda :: LambdaAWSInfo where
  "helloLambda = \<lparr>lambdaFunctionName = ''Hello'', RoleName = ''HelloRole'',
                   RoleDefinition = None, customResources = []\<rparr>"

subsection \<open>Readings of the claims\<close>



text \<open>What the validation reports for one resource: the number of entries.\<close>

definition entryCount :: "world \<Rightarrow> resourceProperties \<Rightarrow> nat" where
  "entryCount w r =
     (case r of
        LambdaFunction None \<Rightarrow> 1
      | LambdaFunction (Some (OtherVariables typeName)) \<Rightarrow> 1
      | LambdaFunction (Some (MapStringInterface vars)) \<Rightarrow>
          length (filter (\<lambda>k. map_of vars k = None) (requiredEnvVars w))
      | _ \<Rightarrow> 0)"

definition noHooks :: WorkflowHooks where
  "noHooks = \<lparr>PreBuild = None, PreBuilds = [], PostBuild = None, PostBuilds = [],
              PreMarshall = None, PreMarshalls = [], PostMarshall = None, PostMarshalls = [],
              ServiceDecorator = None, ServiceDecorators = [], Archive = None, Archives = [],
              Rollback = None, Rollbacks = [], Validators = []\<rparr>"

text \<open>
  A service decorator that adds a Lambda function \<open>Worker\<close> to the template, and a
  change set for it: the code of \<open>Worker\<close> is modified and a bucket is added.
\<close>

definition workerTemplate :: template where
  "workerTemplate =
     [(''Worker'', LambdaFunction (Some (MapStringInterface
         [(''SPARTA_DISCOVERY_INFO'', ''{}''), (''SPARTA_LOG_LEVEL'', ''info'')])))]"

definition decoratorHooks :: WorkflowHooks where
  "decoratorHooks = noHooks\<lparr>ServiceDecorators := [''AddWorker'']\<rparr>"

definition mixedChanges :: "change list" where
  "mixedChanges =
     [\<lparr>Action = ''Modify'', ResourceType = ''AWS::Lambda::Function'',
        LogicalResourceId = ''Worker'', PhysicalResourceId = ''svc-Worker''\<rparr>,
      \<lparr>Action = ''Add'', ResourceType = ''AWS::S3::Bucket'',
        LogicalResourceId = ''Assets'', PhysicalResourceId = []\<rparr>]"

definition inPlaceWorld :: world where
  "inPlaceWorld =
     world0\<lparr>cf_CreateStackChangeSet := (\<lambda>name stack t url. Inr (Some mixedChanges)),
            decorateService := (\<lambda>h. Inr workerTemplate)\<rparr>"

definition uploadedCode :: s3UploadURL where
  "uploadedCode = \<lparr>location = ''https://bucket.s3.amazonaws.com/svc/code.zip'',
                    path = ''svc/code.zip'', version = []\<rparr>"

definition withCodeZipURL :: "s3UploadURL option \<Rightarrow> workflowContext \<Rightarrow> workflowContext" where
  "withCodeZipURL url ctx = ctx\<lparr>context := (context ctx)\<lparr>s3CodeZipURL := url\<rparr>\<rparr>"

text \<open>The change set that \<open>applyInPlaceFunctionUpdates\<close> receives, and the request it builds for a change.\<close>

definition changeSetOf :: "world \<Rightarrow> workflowContext \<Rightarrow> string \<Rightarrow> error + change list option" where
  "changeSetOf w ctx templateURL =
     cf_CreateStackChangeSet w
       (CloudFormationResourceName w (serviceName (userdata ctx) @ ''InPlaceChangeSet''))
       (serviceName (userdata ctx)) (cfTemplate (context ctx)) templateURL"

definition updateRequest :: "workflowContext \<Rightarrow> s3UploadURL \<Rightarrow> change \<Rightarrow> updateFunctionCodeInput" where
  "updateRequest ctx url resourceChange =
     \<lparr>FunctionName = PhysicalResourceId resourceChange,
      S3Bucket = s3Bucket (userdata ctx),
      S3Key = keyName url,
      S3ObjectVersion = (if version url \<noteq> [] then Some (version url) else None)\<rparr>"

definition nilDereference :: string where
  "nilDereference = ''invalid memory address or nil pointer dereference''"

text \<open>
  The events that a step can add to the trace; the others are added by the loop of
  \<open>Provision\<close>, by the rollback and by the finalizers. A context extends another
  when its trace is the other's followed by events of the steps.
\<close>

definition stepEvent :: "event \<Rightarrow> bool" where
  "stepEvent ev =
     (case ev of
        EvWarn _ \<Rightarrow> True
      | EvAddResource _ \<Rightarrow> True
      | EvRemote _ \<Rightarrow> True
      | EvHook _ _ \<Rightarrow> True
      | _ \<Rightarrow> False)"

definition extends :: "workflowContext \<Rightarrow> workflowContext \<Rightarrow> bool" where
  "extends ctx ctx' \<longleftrightarrow> (\<exists>evs. trace ctx' = trace ctx @ evs \<and> list_all stepEvent evs)"

definition isRollback :: "event \<Rightarrow> bool" where
  "isRollback ev = (case ev of EvRollback _ _ \<Rightarrow> True | _ \<Rightarrow> False)"

definition isStep :: "event \<Rightarrow> bool" where
  "isStep ev = (case ev of EvStep _ \<Rightarrow> True | _ \<Rightarrow> False)"

definition isFinalizer :: "event \<Rightarrow> bool" where
  "isFinalizer ev = (case ev of EvFinalizer _ \<Rightarrow> True | _ \<Rightarrow> False)"

definition isStepError :: "event \<Rightarrow> bool" where
  "isStepError ev = (case ev of EvStepError _ \<Rightarrow> True | _ \<Rightarrow> False)"

text \<open>The steps that a step result can hand to the loop as the next step.\<close>

definition yields :: "stepResult \<Rightarrow> (workflowStep \<Rightarrow> bool) \<Rightarrow> bool" where
  "yields r P \<longleftrightarrow> (\<forall>n. fst r = Return (Some n, None) \<longrightarrow> P n)"

definition loopEvent :: "event \<Rightarrow> bool" where
  "loopEvent ev \<longleftrightarrow> stepEvent ev \<or> isStep ev"

text \<open>A world in which the upload to S3 is refused.\<close>

definition uploadFailWorld :: world where
  "uploadFailWorld = world0\<lparr>s3_UploadLocalFileToS3 := (\<lambda>p b k. Inl (Err ''AccessDenied''))\<rparr>"

text \<open>The events of the loop, the rollback and the finalizers.\<close>

definition loopOnly :: "event \<Rightarrow> bool" where
  "loopOnly ev \<longleftrightarrow> isStep ev \<or> isStepError ev \<or> isRollback ev \<or> isFinalizer ev"

definition uploadError :: error where
  "uploadError = Errorf ''Encountered multiple errors during upload: %#v''
                   [Wrapf (Err ''AccessDenied'') ''Failed to upload local file to S3'']"

text \<open>
  The contexts in which the loop of \<open>Provision\<close>, started in \<open>c0\<close>, invokes
  each step: \<open>reaches w c0 step ctx\<close> when the loop comes to \<open>step\<close> with the
  context \<open>ctx\<close>. \<open>runStep\<close> is the context a step leaves.
\<close>

definition runStep :: "world \<Rightarrow> workflowStep \<Rightarrow> workflowContext \<Rightarrow> workflowContext" where
  "runStep w step ctx = snd (invoke w step (logEvent (EvStep step) ctx))"

inductive reaches :: "world \<Rightarrow> workflowContext \<Rightarrow> workflowStep \<Rightarrow> workflowContext \<Rightarrow> bool"
  for w :: world and c0 :: workflowContext where
  start: "reaches w c0 VerifyIAMRoles c0"
| step: "reaches w c0 s ctx \<Longrightarrow>
         fst (invoke w s (logEvent (EvStep s) ctx)) = Return (Some s', None) \<Longrightarrow>
         reaches w c0 s' (runStep w s ctx)"

text \<open>
  What the steps before the last one keep: the dry-run flag; that the template holds
  only IAM roles; and, in a dry run, the versioning flag.
\<close>

definition rolesOnly :: "template \<Rightarrow> bool" where
  "rolesOnly t \<longleftrightarrow> (\<forall>r \<in> set t. snd r = IAMRole)"

definition stable :: "workflowContext \<Rightarrow> workflowContext \<Rightarrow> bool" where
  "stable a b \<longleftrightarrow>
     noop (userdata b) = noop (userdata a)
     \<and> (rolesOnly (cfTemplate (context a)) \<longrightarrow> rolesOnly (cfTemplate (context b)))
     \<and> (noop (userdata a) \<longrightarrow>
          s3BucketVersioningEnabled (context b) = s3BucketVersioningEnabled (context a))"





text \<open>
  What every operation of a run keeps: the arguments of \<open>Provision\<close> that the steps
  read from \<open>userdata\<close>, and, in a dry run, the versioning flag.
\<close>

definition sameRun :: "workflowContext \<Rightarrow> workflowContext \<Rightarrow> bool" where
  "sameRun a b \<longleftrightarrow>
     noop (userdata b) = noop (userdata a)
     \<and> serviceName (userdata b) = serviceName (userdata a)
     \<and> lambdaAWSInfos (userdata b) = lambdaAWSInfos (userdata a)
     \<and> s3Bucket (userdata b) = s3Bucket (userdata a)
     \<and> codePipelineTrigger (userdata b) = codePipelineTrigger (userdata a)
     \<and> (noop (userdata a) \<longrightarrow>
          s3BucketVersioningEnabled (context b) = s3BucketVersioningEnabled (context a))"

text \<open>A world whose bucket is in \<open>us-east-1\<close> while the session is in \<open>us-west-2\<close>.\<close>

definition eastBucketWorld :: world where
  "eastBucketWorld = world0\<lparr>s3_BucketRegion := (\<lambda>b. Inr ''us-east-1'')\<rparr>"

text \<open>The error of the region check.\<close>

definition regionMismatch :: "string \<Rightarrow> string \<Rightarrow> error" where
  "regionMismatch sessionRegionName bucketRegion =
     Err (''region ('' @ sessionRegionName @ '') does not match bucket region ('' @ bucketRegion @ '')'')"

text \<open>The steps that a trace shows as begun, in order.\<close>

definition steps :: "event list \<Rightarrow> workflowStep list" where
  "steps evs = concat (map (\<lambda>ev. case ev of EvStep s \<Rightarrow> [s] | _ \<Rightarrow> []) evs)"

text \<open>
  The starts of two runs of \<open>helloLambda\<close>, one real and one dry, and the context in
  which the dry run calls the upload of the code archive.
\<close>

definition mismatchStart :: workflowContext where
  "mismatchStart = newWorkflowContext False ''svc'' [helloLambda] None None ''bucket'' False [] None"

definition dryRunStart :: workflowContext where
  "dryRunStart = newWorkflowContext True ''svc'' [helloLambda] None None ''bucket'' False [] None"

definition dryRunUploadContext :: workflowContext where
  "dryRunUploadContext =
     logEvent (EvStep (CreateUploadStep ''.sparta/svc-code.zip''))
       (runStep world0 CreatePackageStep
          (runStep world0 VerifyAWSPreconditions
             (runStep world0 VerifyIAMRoles dryRunStart)))"

section \<open>Properties\<close>

subsection \<open>The naming policy\<close>

lemma ext_scan_suffix: "\<exists>pre. rev rs @ acc = pre @ ext_scan rs acc"
  by (induction rs arbitrary: acc) auto

lemma path_Ext_suffix: "\<exists>pre. p = pre @ path_Ext p"
  using ext_scan_suffix [of "rev p" "[]"] by (simp add: path_Ext_def)

lemma TrimSuffix_Ext: "strings_TrimSuffix p (path_Ext p) @ path_Ext p = p"
proof -
  obtain pre where p: "p = pre @ path_Ext p" using path_Ext_suffix by blast
  have "strings_HasSuffix p (path_Ext p)"
    unfolding strings_HasSuffix_def
    by (metis p append_eq_conv_conj length_append le_add2 diff_add_inverse2)
  then show ?thesis
    unfolding strings_TrimSuffix_def strings_HasSuffix_def by (metis append_take_drop_id)
qed

lemma hi_nibble: "unat (drop_bit 4 (b :: 8 word)) = unat b div 16"
  by (simp add: unat_drop_bit_eq drop_bit_eq_div unat_div)

lemma lo_nibble: "unat ((b :: 8 word) AND 0x0f) = unat b mod 16"
proof -
  have "(0x0f :: 8 word) = mask 4" by (simp add: mask_eq_exp_minus_1)
  then have "b AND 0x0f = take_bit 4 b" by (simp add: take_bit_eq_mask)
  then show ?thesis by (simp add: unsigned_take_bit_eq take_bit_eq_mod unat_mod)
qed

lemma hextable_inj: "i < 16 \<Longrightarrow> j < 16 \<Longrightarrow> hextable ! i = hextable ! j \<Longrightarrow> i = j"
proof -
  have "distinct hextable" by (simp add: hextable_def)
  moreover have "length hextable = 16" by (simp add: hextable_def)
  ultimately show "i < 16 \<Longrightarrow> j < 16 \<Longrightarrow> hextable ! i = hextable ! j \<Longrightarrow> i = j"
    by (simp add: nth_eq_iff_index_eq)
qed

lemma hex_byte_inj:
  assumes "hex_byte a = hex_byte b"
  shows "a = b"
proof -
  have la: "unat a < 256" using unsigned_less [of a] by simp
  have lb: "unat b < 256" using unsigned_less [of b] by simp
  from assms have "hextable ! (unat a div 16) = hextable ! (unat b div 16)"
    and "hextable ! (unat a mod 16) = hextable ! (unat b mod 16)"
    by (simp_all add: hex_byte_def hi_nibble lo_nibble)
  with la lb have "unat a div 16 = unat b div 16" and "unat a mod 16 = unat b mod 16"
    by (auto intro!: hextable_inj)
  then have "unat a = unat b" by (metis div_mult_mod_eq)
  then show ?thesis by (simp add: word_unat_eq_iff)
qed

lemma hex_byte_length: "length (hex_byte b) = 2"
  by (simp add: hex_byte_def)

lemma hex_EncodeToString_inj: "hex_EncodeToString xs = hex_EncodeToString ys \<Longrightarrow> xs = ys"
proof (induction xs arbitrary: ys)
  case Nil
  then show ?case by (cases ys) (auto simp: hex_EncodeToString_def hex_byte_def)
next
  case (Cons x xs)
  show ?case
  proof (cases ys)
    case Nil
    with Cons.prems show ?thesis by (auto simp: hex_EncodeToString_def hex_byte_def)
  next
    case (Cons y ys')
    with Cons.prems have "hex_byte x @ hex_EncodeToString xs = hex_byte y @ hex_EncodeToString ys'"
      by (simp add: hex_EncodeToString_def)
    then have "hex_byte x = hex_byte y \<and> hex_EncodeToString xs = hex_EncodeToString ys'"
      by (simp add: hex_byte_length)
    with Cons.IH Cons show ?thesis by (auto dest: hex_byte_inj)
  qed
qed

lemma hex_EncodeToString_length: "length (hex_EncodeToString bs) = 2 * length bs"
  by (induction bs) (simp_all add: hex_EncodeToString_def hex_byte_length)

lemma digit_val_char: "d < 10 \<Longrightarrow> digit_val (digit_char d) = d"
  by (simp add: digit_val_def digit_char_def)

lemma undecimal_decimal: "undecimal (decimal n) = n"
proof (induction n rule: decimal.induct)
  case (1 n)
  show ?case
  proof (cases "n < 10")
    case True
    then show ?thesis by (subst decimal.simps) (simp add: undecimal_def digit_val_char)
  next
    case False
    with 1 have "undecimal (decimal (n div 10)) = n div 10" by simp
    with False show ?thesis
      by (subst decimal.simps) (simp add: undecimal_def digit_val_char)
  qed
qed

lemma decimal_inj: "decimal m = decimal n \<Longrightarrow> m = n"
  by (metis undecimal_decimal)

lemma digit_char_not_minus: "d < 10 \<Longrightarrow> digit_char d \<noteq> CHR ''-''"
proof
  assume "d < 10" and "digit_char d = CHR ''-''"
  then have "of_char (digit_char d) = (of_char (CHR ''-'') :: nat)" by simp
  with \<open>d < 10\<close> show False by (simp add: digit_char_def)
qed

lemma decimal_no_minus: "CHR ''-'' \<notin> set (decimal n)"
proof (induction n rule: decimal.induct)
  case (1 n)
  show ?case
  proof (cases "n < 10")
    case True
    then show ?thesis using digit_char_not_minus [of n] by (subst decimal.simps) auto
  next
    case False
    with 1 have "CHR ''-'' \<notin> set (decimal (n div 10))" by simp
    with False show ?thesis using digit_char_not_minus [of "n mod 10"] by (subst decimal.simps) auto
  qed
qed

lemma decimal_nonempty: "decimal n \<noteq> []"
  by (subst decimal.simps) simp

lemma format_d_inj:
  assumes e: "format_d a = format_d b"
  shows "a = b"
proof -
  have hd: "\<And>n. hd (decimal n) \<noteq> CHR ''-''"
    using decimal_no_minus decimal_nonempty by (metis list.set_sel(1))
  have "sint a = sint b"
  proof (cases "sint a < 0"; cases "sint b < 0")
    assume "sint a < 0" "sint b < 0"
    with e have "nat (- sint a) = nat (- sint b)" by (auto simp: format_d_def dest: decimal_inj)
    with \<open>sint a < 0\<close> \<open>sint b < 0\<close> show ?thesis by simp
  next
    assume "sint a < 0" "\<not> sint b < 0"
    with e have "CHR ''-'' = hd (decimal (nat (sint b)))"
      by (auto simp: format_d_def dest: arg_cong [where f = hd])
    with hd show ?thesis by metis
  next
    assume "\<not> sint a < 0" "sint b < 0"
    with e have "CHR ''-'' = hd (decimal (nat (sint a)))"
      by (auto simp: format_d_def dest: arg_cong [where f = hd])
    with hd show ?thesis by metis
  next
    assume "\<not> sint a < 0" "\<not> sint b < 0"
    with e have "nat (sint a) = nat (sint b)" by (auto simp: format_d_def dest: decimal_inj)
    with \<open>\<not> sint a < 0\<close> \<open>\<not> sint b < 0\<close> show ?thesis by simp
  qed
  then show "a = b" by (rule signed_word_eqI)
qed

lemma keySalt_inj: "keySalt k a = keySalt k b \<Longrightarrow> a = b"
  by (simp add: keySalt_def format_d_inj)

text \<open>
  The naming policy. With versioning enabled it returns the default key unchanged. With
  versioning disabled it returns \<open>prefix-hex(digest)extension\<close>, where prefix and
  extension split the default key and the digest is the SHA-1 of the default key and the
  clock reading. Two calls with the same default key at different clock readings hash
  different salts, and their keys differ exactly when the two digests differ.
\<close>

lemma versionAwareS3KeyName_policy:
  "versionAwareS3KeyName sha1 now k True = Inr k
   \<and> versionAwareS3KeyName sha1 now k False =
       Inr (strings_TrimSuffix k (path_Ext k) @ ''-'' @ hex_EncodeToString (sha1 (keySalt k now)) @ path_Ext k)
   \<and> strings_TrimSuffix k (path_Ext k) @ path_Ext k = k
   \<and> (t1 \<noteq> t2 \<longrightarrow>
        keySalt k t1 \<noteq> keySalt k t2
        \<and> (versionAwareS3KeyName sha1 t1 k False = versionAwareS3KeyName sha1 t2 k False
             \<longleftrightarrow> sha1 (keySalt k t1) = sha1 (keySalt k t2)))"
proof -
  have "versionAwareS3KeyName sha1 t1 k False = versionAwareS3KeyName sha1 t2 k False
        \<longleftrightarrow> sha1 (keySalt k t1) = sha1 (keySalt k t2)"
    by (auto simp: versionAwareS3KeyName_def Let_def dest: hex_EncodeToString_inj)
  moreover have "t1 \<noteq> t2 \<longrightarrow> keySalt k t1 \<noteq> keySalt k t2"
    using keySalt_inj by blast
  ultimately show ?thesis
    by (simp add: versionAwareS3KeyName_def Let_def TrimSuffix_Ext)
qed

lemma keySalt_1: "keySalt ''svc/code.zip'' 1 = ''svc/code.zip-1''"
  by code_simp

lemma keySalt_2: "keySalt ''svc/code.zip'' 2 = ''svc/code.zip-2''"
  by code_simp

lemma versionAwareS3KeyName_policy_example:
  "(1 :: 64 word) \<noteq> 2
   \<and> versionAwareS3KeyName byteHash 1 ''svc/code.zip'' True = Inr ''svc/code.zip''
   \<and> versionAwareS3KeyName byteHash 1 ''svc/code.zip'' False
       = Inr (''svc/code-'' @ hex_EncodeToString (byteHash ''svc/code.zip-1'') @ ''.zip'')
   \<and> versionAwareS3KeyName byteHash 1 ''svc/code.zip'' False
       \<noteq> versionAwareS3KeyName byteHash 2 ''svc/code.zip'' False"
proof -
  note policy = versionAwareS3KeyName_policy [of byteHash 1 "''svc/code.zip''" 1 2]
  have times: "(1 :: 64 word) \<noteq> 2" by simp
  have digests: "byteHash (keySalt ''svc/code.zip'' 1) \<noteq> byteHash (keySalt ''svc/code.zip'' 2)"
    by (simp add: keySalt_1 keySalt_2 byteHash_def)
  have parts: "strings_TrimSuffix ''svc/code.zip'' (path_Ext ''svc/code.zip'') = ''svc/code''"
    "path_Ext ''svc/code.zip'' = ''.zip''"
    by (simp_all add: path_Ext_def strings_TrimSuffix_def strings_HasSuffix_def)
  from policy times digests
  have "versionAwareS3KeyName byteHash 1 ''svc/code.zip'' False
          \<noteq> versionAwareS3KeyName byteHash 2 ''svc/code.zip'' False"
    by blast
  moreover from policy
  have "versionAwareS3KeyName byteHash 1 ''svc/code.zip'' False
       = Inr (''svc/code-'' @ hex_EncodeToString (byteHash ''svc/code.zip-1'') @ ''.zip'')"
    by (simp only: parts keySalt_1) simp
  moreover from policy
  have "versionAwareS3KeyName byteHash 1 ''svc/code.zip'' True = Inr ''svc/code.zip''"
    by blast
  ultimately show ?thesis using times by blast
qed

subsection \<open>Postcondition validation\<close>

lemma resourceErrors_length: "length (resourceErrors (requiredEnvVars w) i r) = entryCount w r"
  by (simp add: resourceErrors_def entryCount_def
      split: resourceProperties.splits option.splits envVariables.splits)

lemma validateErrs_length:
  "length (validateErrs w t) = sum_list (map (\<lambda>r. entryCount w (snd r)) t)"
  by (induction t) (auto simp: validateErrs_def resourceErrors_length length_concat)

lemma sum_list_pos_iff: "0 < sum_list (map f xs) \<longleftrightarrow> (\<exists>x \<in> set xs. 0 < (f x :: nat))"
  by (induction xs) auto

text \<open>
  What the validation returns on any template: it fails exactly when some resource has
  an entry, with the single error that carries the entries of all resources.
\<close>

lemma validateSpartaPostconditions_aggregates:
  "validateSpartaPostconditions w ctx =
     (if \<exists>r \<in> set (cfTemplate (context ctx)). 0 < entryCount w (snd r)
      then (Return (None, Some (Errorf ''Problems validating template contents: %v''
                                  (validateErrs w (cfTemplate (context ctx))))), ctx)
      else (Return (Some EnsureCloudFormationStack, None), ctx))
   \<and> length (validateErrs w (cfTemplate (context ctx)))
       = sum_list (map (\<lambda>r. entryCount w (snd r)) (cfTemplate (context ctx)))"
proof -
  have "0 < length (validateErrs w (cfTemplate (context ctx)))
        \<longleftrightarrow> (\<exists>r \<in> set (cfTemplate (context ctx)). 0 < entryCount w (snd r))"
    using sum_list_pos_iff [of "\<lambda>r. entryCount w (snd r)" "cfTemplate (context ctx)"]
    by (simp only: validateErrs_length)
  then have "validateErrs w (cfTemplate (context ctx)) \<noteq> []
        \<longleftrightarrow> (\<exists>r \<in> set (cfTemplate (context ctx)). 0 < entryCount w (snd r))"
    by simp
  then show ?thesis
    by (auto simp: validateSpartaPostconditions_def Let_def validateErrs_length)
qed

subsection \<open>Evaluating concrete runs\<close>

named_theorems run_defs

lemmas [run_defs] =
  Provision_def newWorkflowContext_def noFunctionsMessage_def logEvent_def invoke_def
  verifyIAMRoles_def deferRecordDuration_def recordDuration_def Let_def
  verifyAWSPreconditions_def createPackageStep_def hookPhase_def callWorkflowHook_def
  callArchiveHook_def createUploadStep_def validateSpartaPostconditions_def validateErrs_def
  ensureCloudFormationStack_def exportAPI_def callServiceDecoratorHook_def exportSite_def editTemplate_def
  wrapErr_def validationPhase_def callValidationHooks_def applyCloudFormationOperation_def
  uploadLocalFileToS3_def versionAwareS3KeyName_def registerFileCleanupFinalizer_def registerFinalizer_def
  registerRollback_def applyInPlaceFunctionUpdates_def isFunctionCodeChange_def codeZipKey_def codeZipVersion_def
  setTemplate_def rollback_def callRollbackHook_def runFinalizers_def ctx0_def nilDereference_def

lemma world0_simps:
  "sha1_Sum world0 = byteHash"
  "time_Now_UnixNano world0 = (\<lambda>n. 1557000000000000000 + of_nat n)"
  "url_Parse world0 = (\<lambda>s. Inr (urlPath s, []))"
  "url_ParseQuery world0 = (\<lambda>q. Inr (\<lambda>k. []))"
  "filepath_Base world0 = unixBase"
  "validateSpartaPreconditions world0 = (\<lambda>lambdas. None)"
  "profileDecorator world0 = None"
  "logicalName world0 = (\<lambda>rd service fn. ''IAMRole'' @ rd)"
  "envVarDiscoveryInformation world0 = ''SPARTA_DISCOVERY_INFO''"
  "envVarLogLevel world0 = ''SPARTA_LOG_LEVEL''"
  "sanitizedName world0 = (\<lambda>s. s)"
  "CloudFormationResourceName world0 = (\<lambda>s. s)"
  "sessionRegion world0 = ''us-west-2''"
  "iam_GetRole world0 = (\<lambda>n. Inr (''arn:aws:iam::123456789012:role/'' @ n))"
  "s3_BucketVersioningEnabled world0 = (\<lambda>b. Inr False)"
  "s3_BucketRegion world0 = (\<lambda>b. Inr ''us-west-2'')"
  "s3_UploadLocalFileToS3 world0 = (\<lambda>p b k. Inr (''https://'' @ b @ ''.s3.amazonaws.com/'' @ k))"
  "cf_CreateStackChangeSet world0 = (\<lambda>name stack t url. Inr (Some []))"
  "lambda_UpdateFunctionCode world0 = (\<lambda>request. None)"
  "cf_DeleteChangeSet world0 = (\<lambda>stack name. None)"
  "cf_DescribeStacks world0 = (\<lambda>stack. Inr [stack])"
  "cf_ConvergeStackState world0 = (\<lambda>stack t url timeout. Inr stack)"
  "system_TemporaryFile world0 = (\<lambda>name. Inr (''.sparta/'' @ name))"
  "localOp world0 = (\<lambda>name. None)"
  "templateOp world0 = (\<lambda>operation subject key v t. Inr t)"
  "safeMerge world0 = (\<lambda>src dst. ([], dst @ src))"
  "decorateWorkflow world0 = (\<lambda>phase h. None)"
  "decorateArchive world0 = (\<lambda>h. None)"
  "decorateService world0 = (\<lambda>h. Inr [])"
  "validateService world0 = (\<lambda>h t. None)"
  by (simp_all add: world0_def)

lemma andThen_weak_cong: "r = r' \<Longrightarrow> andThen r k = andThen r' k"
  by simp

lemma andThen_simps:
  "andThen (None, c) k = k c"
  "andThen (Some e, c) k = (Return (None, Some e), c)"
  by (simp_all add: andThen_def)

lemma logEvent_fields [simp]:
  "userdata (logEvent ev ctx) = userdata ctx"
  "context (logEvent ev ctx) = context ctx"
  "transaction (logEvent ev ctx) = transaction ctx"
  "clock (logEvent ev ctx) = clock ctx"
  "trace (logEvent ev ctx) = trace ctx @ [ev]"
  by (simp_all add: logEvent_def)

subsection \<open>In-place updates\<close>

lemma classifyChanges_Some:
  "s3CodeZipURL (context ctx) = Some url \<Longrightarrow>
   classifyChanges ctx chs us bad =
     Return (us @ map (updateRequest ctx url) (filter isFunctionCodeChange chs),
             bad @ map invalidInPlaceRequest (filter (\<lambda>ch. \<not> isFunctionCodeChange ch) chs))"
  by (induction chs arbitrary: us bad) (simp_all add: updateRequest_def)

lemma classifyChanges_None:
  "s3CodeZipURL (context ctx) = None \<Longrightarrow>
   classifyChanges ctx chs us bad =
     (if \<exists>ch \<in> set chs. isFunctionCodeChange ch
      then Panic ''invalid memory address or nil pointer dereference''
      else Return (us, bad @ map invalidInPlaceRequest chs))"
  by (induction chs arbitrary: us bad) simp_all

text \<open>
  Where the upload location is set, or no change is a change of function code, a change
  set with an unsupported change is rejected with the list of all unsupported changes,
  after the one call that computes the change set.
\<close>

lemma applyInPlaceFunctionUpdates_rejects_unsupported:
  assumes "changeSetOf w ctx templateURL = Inr (Some chs)"
    and "\<exists>ch \<in> set chs. \<not> isFunctionCodeChange ch"
    and "s3CodeZipURL (context ctx) \<noteq> None \<or> (\<forall>ch \<in> set chs. \<not> isFunctionCodeChange ch)"
  shows "applyInPlaceFunctionUpdates w ctx templateURL =
           (Return (Inl (unsupportedInPlace
                      (map invalidInPlaceRequest (filter (\<lambda>ch. \<not> isFunctionCodeChange ch) chs)))),
            logEvent (EvRemote (CF_CreateStackChangeSet
                        (CloudFormationResourceName w (serviceName (userdata ctx) @ ''InPlaceChangeSet''))
                        (serviceName (userdata ctx)) templateURL)) ctx)"
proof -
  from assms(2) have ne: "chs \<noteq> []" by auto
  from assms(2) have f: "filter (\<lambda>ch. \<not> isFunctionCodeChange ch) chs \<noteq> []"
    by (simp add: filter_empty_conv)
  show ?thesis
  proof (cases "s3CodeZipURL (context ctx)")
    case None
    with assms(3) have all: "\<forall>ch \<in> set chs. \<not> isFunctionCodeChange ch" by simp
    then have "filter (\<lambda>ch. \<not> isFunctionCodeChange ch) chs = chs" by simp
    with assms(1) None ne all show ?thesis
      by (simp add: applyInPlaceFunctionUpdates_def changeSetOf_def Let_def classifyChanges_None)
  next
    case (Some url)
    with assms(1) ne f show ?thesis
      by (simp add: applyInPlaceFunctionUpdates_def changeSetOf_def Let_def classifyChanges_Some)
  qed
qed

text \<open>
  C4, at a failing input. No Lambda functions are given, so no code archive is uploaded;
  a service decorator adds the function \<open>Worker\<close> to the template; the change set
  has a change of the code of \<open>Worker\<close> and an added bucket. The operation panics
  on the \<open>nil\<close> upload location instead of returning the error that lists the added
  bucket, and so does \<open>Provision\<close>.
\<close>

theorem applyInPlaceFunctionUpdates_unsupported_failing_input:
  "fst (applyInPlaceFunctionUpdates inPlaceWorld
          (setTemplate workerTemplate (ctx0 False [] (Some decoratorHooks)))
          ''https://bucket.s3.amazonaws.com/svc/svc-cftemplate.json'')
     = Panic ''invalid memory address or nil pointer dereference''
   \<and> map_option fst
         (Provision 6 inPlaceWorld False ''svc'' [] None None ''bucket'' True [] (Some decoratorHooks))
     = Some (Panic ''invalid memory address or nil pointer dereference'')"
  by (simp add: run_defs andThen_simps eval_nat_numeral inPlaceWorld_def world0_simps noHooks_def
      decoratorHooks_def workerTemplate_def mixedChanges_def cong: let_weak_cong andThen_weak_cong)

text \<open>
  C10. When the change set has a change of function code, \<open>applyInPlaceFunctionUpdates\<close>
  dereferences the upload location: with a \<open>nil\<close> location it panics, with a location
  it does not.
\<close>

theorem applyInPlaceFunctionUpdates_nil_upload_location:
  assumes "changeSetOf w ctx templateURL = Inr (Some chs)"
    and "\<exists>ch \<in> set chs. isFunctionCodeChange ch"
  shows "(s3CodeZipURL (context ctx) = None \<longrightarrow>
            fst (applyInPlaceFunctionUpdates w ctx templateURL) = Panic nilDereference)
         \<and> (s3CodeZipURL (context ctx) \<noteq> None \<longrightarrow>
            fst (applyInPlaceFunctionUpdates w ctx templateURL) \<noteq> Panic nilDereference)"
proof (cases "s3CodeZipURL (context ctx)")
  case None
  from assms(2) have "chs \<noteq> []" by auto
  with assms None show ?thesis
    by (simp add: applyInPlaceFunctionUpdates_def changeSetOf_def Let_def classifyChanges_None
        nilDereference_def)
next
  case (Some url)
  from assms(2) have "chs \<noteq> []" by auto
  with assms Some show ?thesis
    by (auto simp add: applyInPlaceFunctionUpdates_def changeSetOf_def Let_def classifyChanges_Some
        nilDereference_def split: sum.splits list.splits)
qed

theorem applyInPlaceFunctionUpdates_nil_upload_location_witness:
  "changeSetOf inPlaceWorld (ctx0 False [] (Some noHooks)) ''t.json'' = Inr (Some mixedChanges)
   \<and> (\<exists>ch \<in> set mixedChanges. isFunctionCodeChange ch)
   \<and> s3CodeZipURL (context (ctx0 False [] (Some noHooks))) = None
   \<and> fst (applyInPlaceFunctionUpdates inPlaceWorld (ctx0 False [] (Some noHooks)) ''t.json'')
       = Panic nilDereference
   \<and> s3CodeZipURL (context (withCodeZipURL (Some uploadedCode) (ctx0 False [helloLambda] None))) \<noteq> None
   \<and> fst (applyInPlaceFunctionUpdates inPlaceWorld
             (withCodeZipURL (Some uploadedCode) (ctx0 False [helloLambda] None)) ''t.json'')
       \<noteq> Panic nilDereference"
proof -
  have cs: "\<And>c. changeSetOf inPlaceWorld c ''t.json'' = Inr (Some mixedChanges)"
    by (simp add: changeSetOf_def inPlaceWorld_def world0_simps)
  have ch: "\<exists>ch \<in> set mixedChanges. isFunctionCodeChange ch"
    by (simp add: mixedChanges_def isFunctionCodeChange_def)
  have nil: "s3CodeZipURL (context (ctx0 False [] (Some noHooks))) = None"
    by (simp add: ctx0_def newWorkflowContext_def)
  have set: "s3CodeZipURL (context (withCodeZipURL (Some uploadedCode) (ctx0 False [helloLambda] None))) \<noteq> None"
    by (simp add: withCodeZipURL_def)
  from applyInPlaceFunctionUpdates_nil_upload_location [OF cs ch, of "ctx0 False [] (Some noHooks)"]
       applyInPlaceFunctionUpdates_nil_upload_location [OF cs ch,
         of "withCodeZipURL (Some uploadedCode) (ctx0 False [helloLambda] None)"]
       cs ch nil set
  show ?thesis by blast
qed

subsection \<open>Steps only append their own events to the trace\<close>

named_theorems ext

lemma extends_refl [simp]: "extends ctx ctx"
  by (simp add: extends_def)

lemma extends_trans: "extends a b \<Longrightarrow> extends b c \<Longrightarrow> extends a c"
  by (auto simp: extends_def)

lemma extends_same: "extends a b \<Longrightarrow> trace c = trace b \<Longrightarrow> extends a c"
  by (simp add: extends_def)

lemma stepEvent_simps [simp]:
  "stepEvent (EvWarn m)" "stepEvent (EvAddResource n)" "stepEvent (EvRemote r)" "stepEvent (EvHook p h)"
  "\<not> stepEvent (EvStep s)" "\<not> stepEvent (EvStepError e)" "\<not> stepEvent (EvRollback hs fs)"
  "\<not> stepEvent (EvFinalizer f)"
  by (simp_all add: stepEvent_def)

lemma trace_updates [simp]:
  "trace (recordDuration n ctx) = trace ctx"
  "trace (registerRollback r ctx) = trace ctx"
  "trace (registerFinalizer f ctx) = trace ctx"
  "trace (registerFileCleanupFinalizer p ctx) = trace ctx"
  "trace (setTemplate t ctx) = trace ctx"
  "trace (cacheRole n e ctx) = trace ctx"
  by (simp_all add: recordDuration_def registerRollback_def registerFinalizer_def
      registerFileCleanupFinalizer_def setTemplate_def cacheRole_def)

lemma ext_basic [ext]:
  "extends a b \<Longrightarrow> stepEvent ev \<Longrightarrow> extends a (logEvent ev b)"
  "extends a b \<Longrightarrow> extends a (recordDuration n b)"
  "extends a b \<Longrightarrow> extends a (registerRollback r b)"
  "extends a b \<Longrightarrow> extends a (registerFileCleanupFinalizer p b)"
  "extends a b \<Longrightarrow> extends a (setTemplate t b)"
  "extends a b \<Longrightarrow> extends a (cacheRole m e b)"
  "extends a b \<Longrightarrow> extends a (snd (x, b))"
  "extends a b \<Longrightarrow> extends a (b\<lparr>context := cx\<rparr>)"
  "extends a b \<Longrightarrow> extends a (b\<lparr>userdata := ux\<rparr>)"
  "extends a b \<Longrightarrow> extends a (b\<lparr>transaction := tx\<rparr>)"
  "extends a b \<Longrightarrow> extends a (b\<lparr>clock := k\<rparr>)"
  by (auto simp: extends_def)

lemma ext_defer [ext]: "extends a (snd r) \<Longrightarrow> extends a (snd (deferRecordDuration n r))"
  by (simp add: deferRecordDuration_def extends_def)

lemma ext_andThen [ext]:
  assumes "extends a (snd r)" and "\<And>c. extends a c \<Longrightarrow> extends a (snd (k c))"
  shows "extends a (snd (andThen r k))"
  using assms by (auto simp: andThen_def split: option.splits)

lemma ext_runWorkflowHooks [ext]:
  "extends a ctx \<Longrightarrow> extends a (snd (runWorkflowHooks w phase hs ctx))"
proof (induction hs arbitrary: ctx)
  case Nil
  then show ?case by simp
next
  case (Cons x xs)
  from Cons.prems show ?case
    by (auto simp: Let_def split: option.splits intro!: Cons.IH ext)
qed

lemma ext_callWorkflowHook [ext]:
  "extends a ctx \<Longrightarrow> extends a (snd (callWorkflowHook w phase h hs ctx))"
  by (auto simp: callWorkflowHook_def split: option.splits intro!: ext)

lemma ext_hookPhase [ext]:
  "extends a ctx \<Longrightarrow> extends a (snd (hookPhase w phase single many ctx))"
  by (auto simp: hookPhase_def split: option.splits intro!: ext)

lemma ext_runArchiveHooks [ext]:
  "extends a ctx \<Longrightarrow> extends a (snd (runArchiveHooks w hs ctx))"
proof (induction hs arbitrary: ctx)
  case Nil
  then show ?case by simp
next
  case (Cons x xs)
  from Cons.prems show ?case
    by (auto simp: Let_def split: option.splits intro!: Cons.IH ext)
qed

lemma ext_callArchiveHook [ext]:
  "extends a ctx \<Longrightarrow> extends a (snd (callArchiveHook w ctx))"
  by (auto simp: callArchiveHook_def split: option.splits intro!: ext)

lemma ext_runServiceDecorators [ext]:
  "extends a ctx \<Longrightarrow> extends a (snd (runServiceDecorators w hs ctx))"
proof (induction hs arbitrary: ctx)
  case Nil
  then show ?case by simp
next
  case (Cons x xs)
  from Cons.prems show ?case
    by (auto simp: Let_def split: sum.splits intro!: Cons.IH ext)
qed

lemma ext_callServiceDecoratorHook [ext]:
  "extends a ctx \<Longrightarrow> extends a (snd (callServiceDecoratorHook w ctx))"
  by (auto simp: callServiceDecoratorHook_def split: option.splits intro!: ext)

lemma ext_runValidationHooks [ext]:
  "extends a ctx \<Longrightarrow> extends a (snd (runValidationHooks w hs t ctx))"
proof (induction hs arbitrary: ctx)
  case Nil
  then show ?case by simp
next
  case (Cons x xs)
  from Cons.prems show ?case
    by (auto simp: Let_def split: option.splits intro!: Cons.IH ext)
qed

lemma ext_callValidationHooks [ext]:
  "extends a ctx \<Longrightarrow> extends a (snd (callValidationHooks w hs t ctx))"
  by (auto simp: callValidationHooks_def split: option.splits intro!: ext)

lemma ext_validationPhase [ext]:
  "extends a ctx \<Longrightarrow> extends a (snd (validationPhase w ctx))"
  by (auto simp: validationPhase_def split: option.splits intro!: ext)

lemma ext_uploadLocalFileToS3 [ext]:
  "extends a ctx \<Longrightarrow> extends a (snd (uploadLocalFileToS3 w p k ctx))"
  by (auto simp: uploadLocalFileToS3_def Let_def split: sum.splits intro!: ext)

lemma ext_registerRoleDefinition [ext]:
  "extends a ctx \<Longrightarrow> extends a (registerRoleDefinition n ctx)"
  by (auto simp: registerRoleDefinition_def split: option.splits intro!: ext)

lemma ext_registerCustomResourceRoles [ext]:
  "extends a ctx \<Longrightarrow> extends a (registerCustomResourceRoles w crs ctx)"
proof (induction crs arbitrary: ctx)
  case Nil
  then show ?case by simp
next
  case (Cons x xs)
  from Cons.prems show ?case
    by (auto split: option.splits intro!: Cons.IH ext)
qed

lemma ext_assembleRoles [ext]:
  "extends a ctx \<Longrightarrow> extends a (snd (assembleRoles w ls names ctx))"
proof (induction ls arbitrary: names ctx)
  case Nil
  then show ?case by simp
next
  case (Cons x xs)
  from Cons.prems show ?case
    by (auto simp: Let_def split: option.splits intro!: Cons.IH ext)
qed

lemma ext_checkRoleNames [ext]:
  "extends a ctx \<Longrightarrow> extends a (snd (checkRoleNames w ns ctx))"
proof (induction ns arbitrary: ctx)
  case Nil
  then show ?case by simp
next
  case (Cons x xs)
  from Cons.prems show ?case
    by (auto simp: Let_def split: option.splits sum.splits intro!: Cons.IH ext)
qed

lemma ext_verifyIAMRoles [ext]:
  "extends a ctx \<Longrightarrow> extends a (snd (verifyIAMRoles w ctx))"
  unfolding verifyIAMRoles_def
  by (auto simp: Let_def split: sum.splits option.splits intro!: ext)

lemma ext_verifyAWSPreconditions [ext]:
  "extends a ctx \<Longrightarrow> extends a (snd (verifyAWSPreconditions w ctx))"
  unfolding verifyAWSPreconditions_def
  by (auto simp: Let_def split: sum.splits intro!: ext)

lemma ext_createPackageStep [ext]:
  "extends a ctx \<Longrightarrow> extends a (snd (createPackageStep w ctx))"
  unfolding createPackageStep_def
  by (auto split: sum.splits intro!: ext)

lemma ext_workerPool_Run:
  assumes "\<And>t c. extends a c \<Longrightarrow> extends a (snd (run t c))"
  shows "extends a ctx \<Longrightarrow> extends a (snd (workerPool_Run run tasks ctx))"
proof (induction tasks arbitrary: ctx)
  case Nil
  then show ?case by simp
next
  case (Cons t ts)
  from Cons.prems show ?case
    by (auto simp: Let_def intro!: Cons.IH assms)
qed

lemma ext_uploadBinaryTask [ext]:
  "extends a ctx \<Longrightarrow> extends a (snd (uploadBinaryTask w p ctx))"
  by (auto simp: uploadBinaryTask_def Let_def split: sum.splits intro!: ext)

lemma ext_uploadSiteTask [ext]:
  "extends a ctx \<Longrightarrow> extends a (snd (uploadSiteTask w r ctx))"
  by (auto simp: uploadSiteTask_def Let_def split: sum.splits option.splits intro!: ext)

lemma ext_runUploadTask [ext]:
  "extends a ctx \<Longrightarrow> extends a (snd (runUploadTask w t ctx))"
  by (cases t) (simp_all add: runUploadTask_def ext_uploadBinaryTask ext_uploadSiteTask)

lemma ext_createUploadStep [ext]:
  "extends a ctx \<Longrightarrow> extends a (snd (createUploadStep w p ctx))"
  unfolding createUploadStep_def
  by (auto simp: Let_def intro!: ext ext_workerPool_Run [where run = "runUploadTask w"])

lemma ext_validateSpartaPostconditions [ext]:
  "extends a ctx \<Longrightarrow> extends a (snd (validateSpartaPostconditions w ctx))"
  by (simp add: validateSpartaPostconditions_def Let_def)

lemma ext_editTemplate [ext]:
  "extends a ctx \<Longrightarrow> extends a (snd (editTemplate w op subject ctx))"
  by (auto simp: editTemplate_def split: sum.splits intro!: ext)

lemma ext_exportLambdas [ext]:
  "extends a ctx \<Longrightarrow> extends a (snd (exportLambdas w ls ctx))"
proof (induction ls arbitrary: ctx)
  case Nil
  then show ?case by simp
next
  case (Cons x xs)
  from Cons.prems show ?case
    by (auto simp: Let_def verifyLambdaPreconditions_def split: option.splits intro!: Cons.IH ext)
qed

lemma ext_exportAPI [ext]:
  "extends a ctx \<Longrightarrow> extends a (snd (exportAPI w ctx))"
  by (auto simp: exportAPI_def Let_def split: option.splits sum.splits intro!: ext)

lemma ext_annotateLambdas [ext]:
  "extends a ctx \<Longrightarrow> extends a (snd (annotateLambdas w ls ctx))"
proof (induction ls arbitrary: ctx)
  case Nil
  then show ?case by simp
next
  case (Cons x xs)
  from Cons.prems show ?case
    by (auto simp: Let_def split: option.splits intro!: Cons.IH ext)
qed

lemma ext_exportSite [ext]:
  assumes "extends a ctx" and "\<And>c. extends a c \<Longrightarrow> extends a (snd (k c))"
  shows "extends a (snd (exportSite w ctx k))"
  using assms unfolding exportSite_def
  by (auto simp: Let_def split: option.splits intro!: ext)

lemma ext_runInPlaceTask [ext]:
  "extends a ctx \<Longrightarrow> extends a (snd (runInPlaceTask w n t ctx))"
  by (cases t) (auto simp: runInPlaceTask_def intro!: ext)

lemma ext_applyInPlaceFunctionUpdates [ext]:
  "extends a ctx \<Longrightarrow> extends a (snd (applyInPlaceFunctionUpdates w ctx url))"
  unfolding applyInPlaceFunctionUpdates_def
  by (auto simp: Let_def split: sum.splits option.splits outcome.splits list.splits
      intro!: ext ext_workerPool_Run [where run = "runInPlaceTask w n" for n])

lemma ext_applyCloudFormationOperation [ext]:
  "extends a ctx \<Longrightarrow> extends a (snd (applyCloudFormationOperation w ctx))"
  unfolding applyCloudFormationOperation_def
  by (auto simp: Let_def split: sum.splits outcome.splits intro!: ext)

lemma ext_ensureCloudFormationStack [ext]:
  "extends a ctx \<Longrightarrow> extends a (snd (ensureCloudFormationStack w ctx))"
  unfolding ensureCloudFormationStack_def
  by (auto simp: Let_def intro!: ext)

lemma ext_invoke: "extends a ctx \<Longrightarrow> extends a (snd (invoke w step ctx))"
  by (cases step) (simp_all add: invoke_def ext)

subsection \<open>The loop of Provision returns\<close>

named_theorems yld

lemma yields_basic [yld]:
  "yields (Return (None, e), c) P"
  "yields (Return (n, Some err), c) P"
  "yields (Panic p, c) P"
  "P s \<Longrightarrow> yields (Return (Some s, None), c) P"
  by (simp_all add: yields_def)

lemma yields_defer [yld]: "yields r P \<Longrightarrow> yields (deferRecordDuration n r) P"
  by (simp add: yields_def deferRecordDuration_def)

lemma yields_andThen [yld]: "(\<And>c. yields (k c) P) \<Longrightarrow> yields (andThen r k) P"
  by (auto simp: yields_def andThen_def split: option.splits)

lemma yields_verifyIAMRoles: "yields (verifyIAMRoles w ctx) (\<lambda>s. s = VerifyAWSPreconditions)"
  unfolding verifyIAMRoles_def
  by (auto simp: Let_def split: sum.splits option.splits intro!: yld)

lemma yields_verifyAWSPreconditions: "yields (verifyAWSPreconditions w ctx) (\<lambda>s. s = CreatePackageStep)"
  unfolding verifyAWSPreconditions_def
  by (auto simp: Let_def split: sum.splits intro!: yld)

lemma yields_createPackageStep: "yields (createPackageStep w ctx) (\<lambda>s. \<exists>p. s = CreateUploadStep p)"
  unfolding createPackageStep_def
  by (auto split: sum.splits intro!: yld)

lemma yields_createUploadStep: "yields (createUploadStep w p ctx) (\<lambda>s. s = ValidateSpartaPostconditions)"
  unfolding createUploadStep_def
  by (auto simp: Let_def intro!: yld)

lemma yields_validateSpartaPostconditions:
  "yields (validateSpartaPostconditions w ctx) (\<lambda>s. s = EnsureCloudFormationStack)"
  unfolding validateSpartaPostconditions_def
  by (auto simp: Let_def intro!: yld)

lemma yields_applyCloudFormationOperation: "yields (applyCloudFormationOperation w ctx) (\<lambda>s. False)"
  unfolding applyCloudFormationOperation_def
  by (auto simp: Let_def split: sum.splits outcome.splits intro!: yld)

lemma yields_exportSite: "(\<And>c. yields (k c) P) \<Longrightarrow> yields (exportSite w ctx k) P"
  unfolding exportSite_def
  by (auto simp: Let_def split: option.splits intro!: yld)

lemma yields_ensureCloudFormationStack: "yields (ensureCloudFormationStack w ctx) (\<lambda>s. False)"
  unfolding ensureCloudFormationStack_def
  by (intro yld yields_exportSite yields_applyCloudFormationOperation)

lemma invoke_rank:
  assumes "fst (invoke w step ctx) = Return (Some next, None)"
  shows "stepRank next = Suc (stepRank step)"
proof (cases step)
  case VerifyIAMRoles
  with assms yields_verifyIAMRoles [of w ctx] show ?thesis
    by (simp add: invoke_def yields_def stepRank_def)
next
  case VerifyAWSPreconditions
  with assms yields_verifyAWSPreconditions [of w ctx] show ?thesis
    by (simp add: invoke_def yields_def stepRank_def)
next
  case CreatePackageStep
  with assms yields_createPackageStep [of w ctx] show ?thesis
    by (auto simp: invoke_def yields_def stepRank_def)
next
  case (CreateUploadStep p)
  with assms yields_createUploadStep [of w p ctx] show ?thesis
    by (simp add: invoke_def yields_def stepRank_def)
next
  case ValidateSpartaPostconditions
  with assms yields_validateSpartaPostconditions [of w ctx] show ?thesis
    by (simp add: invoke_def yields_def stepRank_def)
next
  case EnsureCloudFormationStack
  with assms yields_ensureCloudFormationStack [of w ctx] show ?thesis
    by (simp add: invoke_def yields_def)
qed

lemma stepRank_le: "stepRank s \<le> 5"
  by (cases s) (simp_all add: stepRank_def)

lemma workflowLoop_Suc:
  "fst (invoke w s (logEvent (EvStep s) c)) = Panic p \<Longrightarrow>
     workflowLoop (Suc f) w s c = Some (Panicked p, snd (invoke w s (logEvent (EvStep s) c)))"
  "fst (invoke w s (logEvent (EvStep s) c)) = Return (n, Some e) \<Longrightarrow>
     workflowLoop (Suc f) w s c
       = Some (Failed e, rollback (logEvent (EvStepError e) (snd (invoke w s (logEvent (EvStep s) c)))))"
  "fst (invoke w s (logEvent (EvStep s) c)) = Return (None, None) \<Longrightarrow>
     workflowLoop (Suc f) w s c = Some (Completed, snd (invoke w s (logEvent (EvStep s) c)))"
  "fst (invoke w s (logEvent (EvStep s) c)) = Return (Some next, None) \<Longrightarrow>
     workflowLoop (Suc f) w s c = workflowLoop f w next (snd (invoke w s (logEvent (EvStep s) c)))"
  by (simp_all add: Let_def split: option.splits)

lemma stepResult_cases:
  obtains (panicked) p where "fst (r :: stepResult) = Panic p"
  | (failed) n e where "fst r = Return (n, Some e)"
  | (finished) "fst r = Return (None, None)"
  | (continues) s where "fst r = Return (Some s, None)"
proof (cases "fst r")
  case (Panic p)
  then show ?thesis by (rule panicked)
next
  case (Return x)
  then show ?thesis
    by (cases x; cases "fst x"; cases "snd x") (auto intro: failed finished continues)
qed

lemma workflowLoop_returns:
  "6 \<le> stepRank step + fuel \<Longrightarrow> \<exists>r. workflowLoop fuel w step ctx = Some r"
proof (induction fuel arbitrary: step ctx)
  case 0
  with stepRank_le [of step] show ?case by simp
next
  case (Suc fuel)
  show ?case
  proof (cases "invoke w step (logEvent (EvStep step) ctx)" rule: stepResult_cases)
    case (panicked p)
    then show ?thesis by (simp add: workflowLoop_Suc del: workflowLoop.simps)
  next
    case (failed n e)
    then show ?thesis by (simp add: workflowLoop_Suc del: workflowLoop.simps)
  next
    case finished
    then show ?thesis by (simp add: workflowLoop_Suc del: workflowLoop.simps)
  next
    case (continues s)
    then have "stepRank s = Suc (stepRank step)" by (rule invoke_rank)
    with Suc.prems have "6 \<le> stepRank s + fuel" by simp
    from Suc.IH [OF this] continues show ?thesis by (simp add: workflowLoop_Suc del: workflowLoop.simps)
  qed
qed

subsection \<open>The trace of the loop\<close>

lemma event_kinds [simp]:
  "isStep (EvStep s)" "\<not> isStep (EvStepError e)" "\<not> isStep (EvRollback hs fs)" "\<not> isStep (EvFinalizer f)"
  "isRollback (EvRollback hs fs)" "\<not> isRollback (EvStep s)" "\<not> isRollback (EvStepError e)"
  "\<not> isRollback (EvFinalizer f)"
  "isStepError (EvStepError e)" "\<not> isStepError (EvStep s)" "\<not> isStepError (EvRollback hs fs)"
  "\<not> isStepError (EvFinalizer f)"
  "isFinalizer (EvFinalizer f)" "\<not> isFinalizer (EvStep s)" "\<not> isFinalizer (EvStepError e)"
  "\<not> isFinalizer (EvRollback hs fs)"
  by (simp_all add: isStep_def isRollback_def isStepError_def isFinalizer_def)

lemma stepEvent_kinds:
  "stepEvent ev \<Longrightarrow> \<not> isStep ev \<and> \<not> isRollback ev \<and> \<not> isStepError ev \<and> \<not> isFinalizer ev"
  by (cases ev) (simp_all add: isStep_def isRollback_def isStepError_def isFinalizer_def)

lemma loopEvent_kinds:
  "loopEvent ev \<Longrightarrow> \<not> isRollback ev \<and> \<not> isStepError ev \<and> \<not> isFinalizer ev"
  by (cases ev) (simp_all add: loopEvent_def isStep_def isRollback_def isStepError_def isFinalizer_def)

lemma loopEvent_intros [simp]: "stepEvent ev \<Longrightarrow> loopEvent ev" "loopEvent (EvStep s)"
  by (simp_all add: loopEvent_def)

lemma rollback_trace:
  "\<exists>warns hs. trace (rollback c) = trace c @ warns @ [EvRollback hs (rollbackFunctions (transaction c))]
     \<and> list_all stepEvent warns"
proof (cases "workflowHooks (userdata c)")
  case None
  then show ?thesis
    by (simp add: rollback_def callRollbackHook_def Let_def)
next
  case (Some hooks)
  show ?thesis
  proof (cases "Rollback hooks")
    case None
    with Some show ?thesis
      by (simp add: rollback_def callRollbackHook_def Let_def)
  next
    case (Some h)
    with \<open>workflowHooks (userdata c) = Some hooks\<close>
    have "trace (rollback c) = trace c
            @ [EvWarn ''DEPRECATED: Single RollbackHook superseded by RollbackHookHandler slice'']
            @ [EvRollback (Rollbacks hooks @ [h]) (rollbackFunctions (transaction c))]"
      by (simp add: rollback_def callRollbackHook_def Let_def)
    moreover have "list_all stepEvent
            [EvWarn ''DEPRECATED: Single RollbackHook superseded by RollbackHookHandler slice'']"
      by simp
    ultimately show ?thesis by blast
  qed
qed

text \<open>What the loop adds to the trace, by the way it exits.\<close>

lemma workflowLoop_trace:
  assumes "workflowLoop fuel w step ctx = Some (ex, ctx')"
  shows "\<exists>evs. list_all loopEvent evs \<and>
           (case ex of
              Failed err \<Rightarrow>
                (\<exists>warns hs fs. trace ctx' = trace ctx @ EvStep step # evs @ [EvStepError err] @ warns
                                                @ [EvRollback hs fs]
                               \<and> list_all stepEvent warns)
            | _ \<Rightarrow> trace ctx' = trace ctx @ EvStep step # evs)"
  using assms
proof (induction fuel arbitrary: step ctx)
  case 0
  then show ?case by simp
next
  case (Suc fuel)
  let ?r = "invoke w step (logEvent (EvStep step) ctx)"
  have "extends (logEvent (EvStep step) ctx) (snd ?r)"
    by (rule ext_invoke) simp
  then obtain evs0 where evs0: "trace (snd ?r) = trace ctx @ EvStep step # evs0" "list_all stepEvent evs0"
    by (auto simp: extends_def)
  then have l0: "list_all loopEvent evs0"
    by (simp add: list_all_iff)
  show ?case
  proof (cases ?r rule: stepResult_cases)
    case (panicked p)
    with Suc.prems evs0 l0 show ?thesis
      by (auto simp: workflowLoop_Suc simp del: workflowLoop.simps)
  next
    case finished
    with Suc.prems evs0 l0 show ?thesis
      by (auto simp: workflowLoop_Suc simp del: workflowLoop.simps)
  next
    case (failed n e)
    with Suc.prems have ex: "ex = Failed e" and c': "ctx' = rollback (logEvent (EvStepError e) (snd ?r))"
      by (simp_all add: workflowLoop_Suc del: workflowLoop.simps)
    from rollback_trace [of "logEvent (EvStepError e) (snd ?r)"] obtain warns hs
      where "trace ctx' = trace (snd ?r) @ [EvStepError e] @ warns
                @ [EvRollback hs (rollbackFunctions (transaction (logEvent (EvStepError e) (snd ?r))))]"
        and "list_all stepEvent warns"
      unfolding c' by auto
    with evs0 l0 ex show ?thesis by auto
  next
    case (continues s)
    with Suc.prems have "workflowLoop fuel w s (snd ?r) = Some (ex, ctx')"
      by (simp add: workflowLoop_Suc del: workflowLoop.simps)
    from Suc.IH [OF this] obtain evs where evs: "list_all loopEvent evs"
      "case ex of
         Failed err \<Rightarrow>
           (\<exists>warns hs fs. trace ctx' = trace (snd ?r) @ EvStep s # evs @ [EvStepError err] @ warns
                                          @ [EvRollback hs fs]
                          \<and> list_all stepEvent warns)
       | _ \<Rightarrow> trace ctx' = trace (snd ?r) @ EvStep s # evs"
      by blast
    have "list_all loopEvent (evs0 @ EvStep s # evs)"
      using l0 evs(1) by simp
    moreover have "case ex of
         Failed err \<Rightarrow>
           (\<exists>warns hs fs. trace ctx' = trace ctx @ EvStep step # (evs0 @ EvStep s # evs) @ [EvStepError err]
                                          @ warns @ [EvRollback hs fs]
                          \<and> list_all stepEvent warns)
       | _ \<Rightarrow> trace ctx' = trace ctx @ EvStep step # (evs0 @ EvStep s # evs)"
      using evs(2) evs0(1) by (cases ex) auto
    ultimately show ?thesis by blast
  qed
qed

subsection \<open>The ways in which Provision returns\<close>


lemma list_ex_loopEvents:
  "list_all loopEvent evs \<Longrightarrow>
     \<not> list_ex isStepError evs \<and> \<not> list_ex isRollback evs \<and> \<not> list_ex isFinalizer evs"
  by (auto simp: list_all_iff list_ex_iff dest: loopEvent_kinds)

lemma list_ex_stepEvents:
  "list_all stepEvent evs \<Longrightarrow>
     \<not> list_ex isStepError evs \<and> \<not> list_ex isRollback evs \<and> \<not> list_ex isFinalizer evs
     \<and> \<not> list_ex isStep evs"
  by (auto simp: list_all_iff list_ex_iff dest: stepEvent_kinds)


lemma Provision_early:
  "validateSpartaPreconditions w a3 = Some err \<Longrightarrow>
     Provision fuel w a1 a2 a3 a4 a5 a6 a7 a8 a9
       = Some (Return (Some (Wrapf err ''Failed to validate preconditions'')),
               newWorkflowContext a1 a2 a3 a4 a5 a6 a7 a8 a9)"
  "validateSpartaPreconditions w a3 = None \<Longrightarrow> length a3 \<le> 0 \<and> a9 = None \<Longrightarrow>
     Provision fuel w a1 a2 a3 a4 a5 a6 a7 a8 a9
       = Some (Return (Some (Err noFunctionsMessage)), newWorkflowContext a1 a2 a3 a4 a5 a6 a7 a8 a9)"
  by (simp_all add: Provision_def Let_def)

lemma Provision_loop:
  assumes "validateSpartaPreconditions w a3 = None" and "\<not> (length a3 \<le> 0 \<and> a9 = None)"
  shows "Provision fuel w a1 a2 a3 a4 a5 a6 a7 a8 a9 =
           (case workflowLoop fuel w VerifyIAMRoles
                   (if length a3 \<le> 0
                    then logEvent (EvWarn noFunctionsMessage) (newWorkflowContext a1 a2 a3 a4 a5 a6 a7 a8 a9)
                    else newWorkflowContext a1 a2 a3 a4 a5 a6 a7 a8 a9) of
              None \<Rightarrow> None
            | Some (Panicked p, ctx2) \<Rightarrow> Some (Panic p, ctx2)
            | Some (Failed err, ctx2) \<Rightarrow>
                Some (Return (Some (Wrapf err ''Failed to provision service'')), ctx2)
            | Some (Completed, ctx2) \<Rightarrow> Some (Return None, runFinalizers ctx2))"
  using assms by (auto simp: Provision_def Let_def)

text \<open>The three ways in which \<open>Provision\<close> returns, with the trace of each.\<close>

lemma Provision_trace:
  assumes "Provision fuel w a1 a2 a3 a4 a5 a6 a7 a8 a9 = Some (res, ctx')"
  shows "\<exists>pre. list_all loopEvent pre \<and>
           ((\<exists>err warns hs fs.
                res = Return (Some (Wrapf err ''Failed to provision service''))
                \<and> trace ctx' = pre @ [EvStepError err] @ warns @ [EvRollback hs fs]
                \<and> list_all stepEvent warns)
            \<or> (res = Return None
                \<and> trace ctx' = pre @ map EvFinalizer (finalizerFunctions (transaction ctx')))
            \<or> (res \<noteq> Return None \<and> trace ctx' = pre))"
proof (cases "validateSpartaPreconditions w a3")
  case (Some err)
  from assms have "trace ctx' = []" "res \<noteq> Return None"
    unfolding Provision_early(1) [OF Some] by (auto simp: newWorkflowContext_def)
  then show ?thesis by auto
next
  case None
  let ?c = "newWorkflowContext a1 a2 a3 a4 a5 a6 a7 a8 a9"
  show ?thesis
  proof (cases "length a3 \<le> 0 \<and> a9 = None")
    case True
    from assms have "trace ctx' = []" "res \<noteq> Return None"
      unfolding Provision_early(2) [OF None True] by (auto simp: newWorkflowContext_def)
    then show ?thesis by auto
  next
    case False
    let ?c1 = "if length a3 \<le> 0 then logEvent (EvWarn noFunctionsMessage) ?c else ?c"
    have t1: "list_all loopEvent (trace ?c1)"
      by (simp add: newWorkflowContext_def)
    note run = assms [unfolded Provision_loop [OF None False]]
    then obtain ex c2 where loop: "workflowLoop fuel w VerifyIAMRoles ?c1 = Some (ex, c2)"
      by (cases "workflowLoop fuel w VerifyIAMRoles ?c1") auto
    from workflowLoop_trace [OF loop] obtain evs where evs: "list_all loopEvent evs"
      "case ex of
         Failed err \<Rightarrow>
           (\<exists>warns hs fs. trace c2 = trace ?c1 @ EvStep VerifyIAMRoles # evs @ [EvStepError err] @ warns
                                          @ [EvRollback hs fs]
                          \<and> list_all stepEvent warns)
       | _ \<Rightarrow> trace c2 = trace ?c1 @ EvStep VerifyIAMRoles # evs"
      by blast
    let ?pre = "trace ?c1 @ EvStep VerifyIAMRoles # evs"
    have pre: "list_all loopEvent ?pre"
      using t1 evs(1) by simp
    show ?thesis
    proof (cases ex)
      case Completed
      with run loop have r: "res = Return None" "ctx' = runFinalizers c2" by simp_all
      with Completed evs(2)
      have "trace ctx' = ?pre @ map EvFinalizer (finalizerFunctions (transaction ctx'))"
        by (simp add: runFinalizers_def)
      with pre r(1) show ?thesis by blast
    next
      case (Failed err)
      with run loop have r: "res = Return (Some (Wrapf err ''Failed to provision service''))" "ctx' = c2"
        by simp_all
      with Failed evs(2) obtain warns hs fs where
        "trace ctx' = ?pre @ [EvStepError err] @ warns @ [EvRollback hs fs]"
        "list_all stepEvent warns"
        by auto
      with pre r(1) show ?thesis by blast
    next
      case (Panicked p)
      with run loop have r: "res = Panic p" "ctx' = c2" by simp_all
      with Panicked evs(2) have "res \<noteq> Return None" "trace ctx' = ?pre"
        by simp_all
      with pre show ?thesis by blast
    qed
  qed
qed


subsection \<open>Rollback and finalizers\<close>


lemmas run_more =
  customResourceRoleNames_def cacheRole_def runUploadTask_def uploadBinaryTask_def uploadSiteTask_def
  loopOnly_def isStep_def isStepError_def isRollback_def isFinalizer_def uploadError_def
  helloLambda_def noHooks_def verifyLambdaPreconditions_def newS3UploadURL_def
  maximumStackOperationTimeout_def




lemma filter_loopOnly_mem: "loopOnly ev \<Longrightarrow> ev \<in> set (filter loopOnly tr) \<Longrightarrow> ev \<in> set tr"
  by simp


text \<open>
  In every run that completes, the finalizers run once each, in the order of registration,
  after everything else. In every run that returns an error, no finalizer runs.
\<close>

lemma Provision_finalizers:
  assumes "Provision fuel w a1 a2 a3 a4 a5 a6 a7 a8 a9 = Some (res, ctx')"
  shows "(res = Return None \<longrightarrow>
            (\<exists>pre. trace ctx' = pre @ map EvFinalizer (finalizerFunctions (transaction ctx'))
                   \<and> \<not> list_ex isFinalizer pre))
         \<and> (res \<noteq> Return None \<longrightarrow> \<not> list_ex isFinalizer (trace ctx'))"
proof -
  from Provision_trace [OF assms] obtain pre where pre: "list_all loopEvent pre"
    and shape: "(\<exists>err warns hs fs.
                res = Return (Some (Wrapf err ''Failed to provision service''))
                \<and> trace ctx' = pre @ [EvStepError err] @ warns @ [EvRollback hs fs]
                \<and> list_all stepEvent warns)
            \<or> (res = Return None
                \<and> trace ctx' = pre @ map EvFinalizer (finalizerFunctions (transaction ctx')))
            \<or> (res \<noteq> Return None \<and> trace ctx' = pre)"
    by blast
  note npre = list_ex_loopEvents [OF pre]
  from shape show ?thesis
  proof (elim disjE exE conjE)
    fix err warns hs fs
    assume "res = Return (Some (Wrapf err ''Failed to provision service''))"
      "trace ctx' = pre @ [EvStepError err] @ warns @ [EvRollback hs fs]" "list_all stepEvent warns"
    with npre list_ex_stepEvents [of warns] show ?thesis by simp
  next
    assume "res = Return None"
      "trace ctx' = pre @ map EvFinalizer (finalizerFunctions (transaction ctx'))"
    with npre show ?thesis by blast
  next
    assume "res \<noteq> Return None" "trace ctx' = pre"
    with npre show ?thesis by simp
  qed
qed

text \<open>
  C1, at a failing input. The upload of the code archive is refused after its clean-up
  finalizer was registered: \<open>Provision\<close> rolls back and returns the error, and the
  registered finalizer never runs.
\<close>

theorem Provision_finalizers_failing_input:
  "map_option (\<lambda>r. (fst r, finalizerFunctions (transaction (snd r)),
                      filter isFinalizer (trace (snd r)), last (trace (snd r))))
     (Provision 6 uploadFailWorld False ''svc'' [helloLambda] None None ''bucket'' False [] None)
   = Some (Return (Some (Wrapf uploadError ''Failed to provision service'')),
           [FileCleanup ''.sparta/svc-code.zip''], [], EvRollback [] [])"
  by (simp add: run_defs run_more andThen_simps eval_nat_numeral uploadFailWorld_def world0_simps
      cong: let_weak_cong andThen_weak_cong)

subsection \<open>No functions provided\<close>

lemma Provision_without_functions:
  assumes "validateSpartaPreconditions w [] = None"
  shows "Provision fuel w dry service [] gateway site bucket inPlaceUpdates trigger None
           = Some (Return (Some (Err noFunctionsMessage)),
                   newWorkflowContext dry service [] gateway site bucket inPlaceUpdates trigger None)
         \<and> trace (newWorkflowContext dry service [] gateway site bucket inPlaceUpdates trigger None) = []
         \<and> (6 \<le> fuel \<longrightarrow>
               (\<exists>res ctx' evs.
                  Provision fuel w dry service [] gateway site bucket inPlaceUpdates trigger (Some hooks)
                    = Some (res, ctx')
                  \<and> trace ctx' = EvWarn noFunctionsMessage # EvStep VerifyIAMRoles # evs
                  \<and> res \<noteq> Return (Some (Err noFunctionsMessage))))"
proof (intro conjI impI)
  show "Provision fuel w dry service [] gateway site bucket inPlaceUpdates trigger None
           = Some (Return (Some (Err noFunctionsMessage)),
                   newWorkflowContext dry service [] gateway site bucket inPlaceUpdates trigger None)"
    using assms by (simp add: Provision_early)
  show "trace (newWorkflowContext dry service [] gateway site bucket inPlaceUpdates trigger None) = []"
    by (simp add: newWorkflowContext_def)
next
  assume fuel: "6 \<le> fuel"
  let ?c = "newWorkflowContext dry service [] gateway site bucket inPlaceUpdates trigger (Some hooks)"
  let ?c1 = "logEvent (EvWarn noFunctionsMessage) ?c"
  have unfold: "Provision fuel w dry service [] gateway site bucket inPlaceUpdates trigger (Some hooks) =
           (case workflowLoop fuel w VerifyIAMRoles ?c1 of
              None \<Rightarrow> None
            | Some (Panicked p, ctx2) \<Rightarrow> Some (Panic p, ctx2)
            | Some (Failed err, ctx2) \<Rightarrow>
                Some (Return (Some (Wrapf err ''Failed to provision service'')), ctx2)
            | Some (Completed, ctx2) \<Rightarrow> Some (Return None, runFinalizers ctx2))"
    using Provision_loop [of w "[]" "Some hooks" fuel dry service gateway site bucket inPlaceUpdates trigger] assms
    by simp
  have t1: "trace ?c1 = [EvWarn noFunctionsMessage]"
    by (simp add: newWorkflowContext_def)
  from fuel have "\<exists>r. workflowLoop fuel w VerifyIAMRoles ?c1 = Some r"
    by (intro workflowLoop_returns) (simp add: stepRank_def)
  then obtain ex c2 where loop: "workflowLoop fuel w VerifyIAMRoles ?c1 = Some (ex, c2)"
    by auto
  from workflowLoop_trace [OF loop] obtain evs where evs:
      "case ex of
         Failed err \<Rightarrow>
           (\<exists>warns hs fs. trace c2 = trace ?c1 @ EvStep VerifyIAMRoles # evs
                                          @ [EvStepError err] @ warns @ [EvRollback hs fs]
                          \<and> list_all stepEvent warns)
       | _ \<Rightarrow> trace c2 = trace ?c1 @ EvStep VerifyIAMRoles # evs"
    by blast
  show "\<exists>res ctx' evs.
          Provision fuel w dry service [] gateway site bucket inPlaceUpdates trigger (Some hooks)
            = Some (res, ctx')
          \<and> trace ctx' = EvWarn noFunctionsMessage # EvStep VerifyIAMRoles # evs
          \<and> res \<noteq> Return (Some (Err noFunctionsMessage))"
  proof (cases ex)
    case Completed
    with evs t1 have "trace (runFinalizers c2)
        = EvWarn noFunctionsMessage # EvStep VerifyIAMRoles
            # (evs @ map EvFinalizer (finalizerFunctions (transaction c2)))"
      by (simp add: runFinalizers_def)
    with Completed loop unfold show ?thesis by simp
  next
    case (Failed err)
    with evs t1 obtain warns hs fs where
      "trace c2 = EvWarn noFunctionsMessage # EvStep VerifyIAMRoles
                    # (evs @ [EvStepError err] @ warns @ [EvRollback hs fs])"
      by auto
    with Failed loop unfold show ?thesis by simp
  next
    case (Panicked p)
    with evs t1 have "trace c2 = EvWarn noFunctionsMessage # EvStep VerifyIAMRoles # evs" by simp
    with Panicked loop unfold show ?thesis by simp
  qed
qed

text \<open>
  C5. With an empty list of functions and no workflow hooks, \<open>Provision\<close> fails
  before any step or remote call: the trace is empty. The error is the one of the
  preliminary validation if that rejects the empty list, and otherwise \<open>No lambda
  functions provided\<close>. With workflow hooks supplied, the empty list only logs that
  message as a warning and the loop starts with the first step.
\<close>

theorem Provision_no_functions:
  "(\<exists>err. Provision fuel w dry service [] gateway site bucket inPlaceUpdates trigger None
            = Some (Return (Some err),
                    newWorkflowContext dry service [] gateway site bucket inPlaceUpdates trigger None))
   \<and> trace (newWorkflowContext dry service [] gateway site bucket inPlaceUpdates trigger None) = []
   \<and> (validateSpartaPreconditions w [] = None \<longrightarrow>
         Provision fuel w dry service [] gateway site bucket inPlaceUpdates trigger None
           = Some (Return (Some (Err noFunctionsMessage)),
                   newWorkflowContext dry service [] gateway site bucket inPlaceUpdates trigger None)
         \<and> (6 \<le> fuel \<longrightarrow>
               (\<exists>res ctx' evs.
                  Provision fuel w dry service [] gateway site bucket inPlaceUpdates trigger (Some hooks)
                    = Some (res, ctx')
                  \<and> trace ctx' = EvWarn noFunctionsMessage # EvStep VerifyIAMRoles # evs
                  \<and> res \<noteq> Return (Some (Err noFunctionsMessage)))))"
proof (cases "validateSpartaPreconditions w []")
  case None
  from Provision_without_functions [OF None, of fuel dry service gateway site bucket inPlaceUpdates trigger hooks]
  show ?thesis using None by simp
next
  case (Some err)
  then show ?thesis
    by (simp add: Provision_early newWorkflowContext_def)
qed

theorem Provision_no_functions_witness:
  "validateSpartaPreconditions world0 [] = None
   \<and> Provision 6 world0 False ''svc'' [] None None ''bucket'' False [] None
       = Some (Return (Some (Err noFunctionsMessage)),
               newWorkflowContext False ''svc'' [] None None ''bucket'' False [] None)
   \<and> (6 :: nat) \<le> 6
   \<and> (\<exists>res ctx' evs.
          Provision 6 world0 False ''svc'' [] None None ''bucket'' False [] (Some noHooks) = Some (res, ctx')
          \<and> trace ctx' = EvWarn noFunctionsMessage # EvStep VerifyIAMRoles # evs
          \<and> res \<noteq> Return (Some (Err noFunctionsMessage)))"
proof -
  have v: "validateSpartaPreconditions world0 [] = None"
    by (simp add: world0_simps)
  from Provision_no_functions [of 6 world0 False "''svc''" None None "''bucket''" False "[]" noHooks] v
  show ?thesis by simp
qed

subsection \<open>What the steps before the validation keep\<close>

text \<open>
  Every step before the last one keeps \<open>stable\<close>: the lemmas follow the structure of
  the steps.
\<close>

named_theorems stb

lemma stable_refl [simp]: "stable a a"
  by (simp add: stable_def)

lemma rolesOnly_AddResource: "rolesOnly t \<Longrightarrow> rolesOnly (AddResource n IAMRole t)"
  by (auto simp: rolesOnly_def AddResource_def)

lemma stable_basic [stb]:
  "stable a b \<Longrightarrow> stable a (logEvent ev b)"
  "stable a b \<Longrightarrow> stable a (recordDuration n b)"
  "stable a b \<Longrightarrow> stable a (registerRollback r b)"
  "stable a b \<Longrightarrow> stable a (registerFileCleanupFinalizer p b)"
  "stable a b \<Longrightarrow> stable a (cacheRole m e b)"
  "stable a b \<Longrightarrow> stable a (snd (x, b))"
  "stable a b \<Longrightarrow> stable a (b\<lparr>clock := k\<rparr>)"
  "stable a b \<Longrightarrow> stable a (b\<lparr>context := (context b)\<lparr>lambdaIAMRoleNameMap := m'\<rparr>\<rparr>)"
  "stable a b \<Longrightarrow> stable a (b\<lparr>context := (context b)\<lparr>s3CodeZipURL := u\<rparr>\<rparr>)"
  "stable a b \<Longrightarrow> stable a (b\<lparr>userdata := (userdata b)\<lparr>s3SiteContext := sc\<rparr>\<rparr>)"
  by (auto simp: stable_def logEvent_def recordDuration_def registerRollback_def
      registerFileCleanupFinalizer_def registerFinalizer_def cacheRole_def)

lemma stable_addRole [stb]:
  "stable a b \<Longrightarrow> stable a (setTemplate (AddResource n IAMRole (cfTemplate (context b))) b)"
  by (auto simp: stable_def setTemplate_def rolesOnly_AddResource)

lemma stable_defer [stb]: "stable a (snd r) \<Longrightarrow> stable a (snd (deferRecordDuration n r))"
  by (simp add: deferRecordDuration_def stb)

lemma stable_andThen [stb]:
  assumes "stable a (snd r)" and "\<And>c. stable a c \<Longrightarrow> stable a (snd (k c))"
  shows "stable a (snd (andThen r k))"
  using assms by (auto simp: andThen_def split: option.splits)

lemma stable_runWorkflowHooks [stb]:
  "stable a ctx \<Longrightarrow> stable a (snd (runWorkflowHooks w phase hs ctx))"
proof (induction hs arbitrary: ctx)
  case Nil
  then show ?case by simp
next
  case (Cons h hs)
  from Cons.prems show ?case
    by (auto simp: Let_def split: option.splits intro!: Cons.IH stb)
qed

lemma stable_callWorkflowHook [stb]:
  "stable a ctx \<Longrightarrow> stable a (snd (callWorkflowHook w phase h hs ctx))"
  by (auto simp: callWorkflowHook_def split: option.splits intro!: stb)

lemma stable_hookPhase [stb]:
  "stable a ctx \<Longrightarrow> stable a (snd (hookPhase w phase single many ctx))"
  by (auto simp: hookPhase_def split: option.splits intro!: stb)

lemma stable_runArchiveHooks [stb]:
  "stable a ctx \<Longrightarrow> stable a (snd (runArchiveHooks w hs ctx))"
proof (induction hs arbitrary: ctx)
  case Nil
  then show ?case by simp
next
  case (Cons h hs)
  from Cons.prems show ?case
    by (auto simp: Let_def split: option.splits intro!: Cons.IH stb)
qed

lemma stable_callArchiveHook [stb]:
  "stable a ctx \<Longrightarrow> stable a (snd (callArchiveHook w ctx))"
  by (auto simp: callArchiveHook_def split: option.splits intro!: stb)

lemma stable_uploadLocalFileToS3 [stb]:
  "stable a ctx \<Longrightarrow> stable a (snd (uploadLocalFileToS3 w p k ctx))"
  by (auto simp: uploadLocalFileToS3_def Let_def split: sum.splits intro!: stb)

lemma stable_registerRoleDefinition [stb]:
  "stable a ctx \<Longrightarrow> stable a (registerRoleDefinition n ctx)"
  by (auto simp: registerRoleDefinition_def split: option.splits intro!: stb)

lemma stable_registerCustomResourceRoles [stb]:
  "stable a ctx \<Longrightarrow> stable a (registerCustomResourceRoles w crs ctx)"
proof (induction crs arbitrary: ctx)
  case Nil
  then show ?case by simp
next
  case (Cons cr crs)
  from Cons.prems show ?case
    by (auto split: option.splits intro!: Cons.IH stb)
qed

lemma stable_assembleRoles [stb]:
  "stable a ctx \<Longrightarrow> stable a (snd (assembleRoles w ls names ctx))"
proof (induction ls arbitrary: names ctx)
  case Nil
  then show ?case by simp
next
  case (Cons l ls)
  from Cons.prems show ?case
    by (auto simp: Let_def split: option.splits intro!: Cons.IH stb)
qed

lemma stable_checkRoleNames [stb]:
  "stable a ctx \<Longrightarrow> stable a (snd (checkRoleNames w ns ctx))"
proof (induction ns arbitrary: ctx)
  case Nil
  then show ?case by simp
next
  case (Cons n ns)
  from Cons.prems show ?case
    by (auto simp: Let_def split: option.splits sum.splits intro!: Cons.IH stb)
qed

lemma stable_verifyIAMRoles [stb]:
  "stable a ctx \<Longrightarrow> stable a (snd (verifyIAMRoles w ctx))"
  unfolding verifyIAMRoles_def
  by (auto simp: Let_def split: sum.splits option.splits intro!: stb)

lemma stable_verifyAWSPreconditions [stb]:
  assumes "stable a ctx"
  shows "stable a (snd (verifyAWSPreconditions w ctx))"
proof (cases "noop (userdata ctx)")
  case True
  with assms show ?thesis
    by (simp add: verifyAWSPreconditions_def stb)
next
  case False
  with assms have "\<not> noop (userdata a)" by (simp add: stable_def)
  with assms show ?thesis
    unfolding verifyAWSPreconditions_def
    by (auto simp: Let_def stable_def deferRecordDuration_def recordDuration_def split: sum.splits)
qed

lemma stable_createPackageStep [stb]:
  "stable a ctx \<Longrightarrow> stable a (snd (createPackageStep w ctx))"
  unfolding createPackageStep_def
  by (auto split: sum.splits intro!: stb)

lemma stable_workerPool_Run:
  assumes "\<And>t c. stable a c \<Longrightarrow> stable a (snd (run t c))"
  shows "stable a ctx \<Longrightarrow> stable a (snd (workerPool_Run run tasks ctx))"
proof (induction tasks arbitrary: ctx)
  case Nil
  then show ?case by simp
next
  case (Cons t ts)
  from Cons.prems show ?case
    by (auto simp: Let_def intro!: Cons.IH assms)
qed

lemma stable_uploadBinaryTask [stb]:
  "stable a ctx \<Longrightarrow> stable a (snd (uploadBinaryTask w p ctx))"
  by (auto simp: uploadBinaryTask_def Let_def split: sum.splits intro!: stb)

lemma stable_uploadSiteTask [stb]:
  "stable a ctx \<Longrightarrow> stable a (snd (uploadSiteTask w r ctx))"
  by (auto simp: uploadSiteTask_def Let_def split: sum.splits option.splits intro!: stb)

lemma stable_runUploadTask [stb]:
  "stable a ctx \<Longrightarrow> stable a (snd (runUploadTask w t ctx))"
  by (cases t) (simp_all add: runUploadTask_def stable_uploadBinaryTask stable_uploadSiteTask)

lemma stable_createUploadStep [stb]:
  "stable a ctx \<Longrightarrow> stable a (snd (createUploadStep w p ctx))"
  unfolding createUploadStep_def
  by (auto simp: Let_def intro!: stb stable_workerPool_Run [where run = "runUploadTask w"])

lemma stable_validateSpartaPostconditions [stb]:
  "stable a ctx \<Longrightarrow> stable a (snd (validateSpartaPostconditions w ctx))"
  by (simp add: validateSpartaPostconditions_def Let_def)


subsection \<open>The validation on the accumulated template\<close>

text \<open>The contexts of \<open>reaches\<close> are those of the loop.\<close>

lemma reaches_workflowLoop:
  "reaches w c0 s ctx \<Longrightarrow>
   \<exists>k. \<forall>n. workflowLoop (k + n) w VerifyIAMRoles c0 = workflowLoop n w s ctx"
proof (induction rule: reaches.induct)
  case start
  have "\<forall>n. workflowLoop (0 + n) w VerifyIAMRoles c0 = workflowLoop n w VerifyIAMRoles c0" by simp
  then show ?case by blast
next
  case (step s ctx s')
  then obtain k where k: "\<And>n. workflowLoop (k + n) w VerifyIAMRoles c0 = workflowLoop n w s ctx"
    by blast
  have "workflowLoop (Suc k + n) w VerifyIAMRoles c0 = workflowLoop n w s' (runStep w s ctx)" for n
  proof -
    have "workflowLoop (Suc k + n) w VerifyIAMRoles c0 = workflowLoop (Suc n) w s ctx"
      using k [of "Suc n"] by simp
    also have "\<dots> = workflowLoop n w s' (runStep w s ctx)"
      using step.hyps(2) by (simp add: runStep_def Let_def)
    finally show ?thesis .
  qed
  then show ?case by blast
qed

lemma rolesOnly_validateErrs: "rolesOnly t \<Longrightarrow> validateErrs w t = []"
  by (induction t) (auto simp: rolesOnly_def validateErrs_def resourceErrors_def)









subsection \<open>What every operation of a run keeps\<close>

text \<open>Every operation keeps \<open>sameRun\<close>: the lemmas follow the structure of the steps.\<close>

named_theorems sr

lemma sameRun_refl [simp]: "sameRun a a"
  by (simp add: sameRun_def)

lemma sr_basic [sr]:
  "sameRun a b \<Longrightarrow> sameRun a (logEvent ev b)"
  "sameRun a b \<Longrightarrow> sameRun a (recordDuration n b)"
  "sameRun a b \<Longrightarrow> sameRun a (registerRollback r b)"
  "sameRun a b \<Longrightarrow> sameRun a (registerFileCleanupFinalizer p b)"
  "sameRun a b \<Longrightarrow> sameRun a (setTemplate t b)"
  "sameRun a b \<Longrightarrow> sameRun a (cacheRole m e b)"
  "sameRun a b \<Longrightarrow> sameRun a (snd (x, b))"
  "sameRun a b \<Longrightarrow> sameRun a (b\<lparr>transaction := tx\<rparr>)"
  "sameRun a b \<Longrightarrow> sameRun a (b\<lparr>clock := k\<rparr>)"
  "sameRun a b \<Longrightarrow> sameRun a (b\<lparr>context := (context b)\<lparr>lambdaIAMRoleNameMap := m'\<rparr>\<rparr>)"
  "sameRun a b \<Longrightarrow> sameRun a (b\<lparr>context := (context b)\<lparr>s3CodeZipURL := u\<rparr>\<rparr>)"
  "sameRun a b \<Longrightarrow> sameRun a (b\<lparr>context := (context b)\<lparr>cfTemplate := t\<rparr>\<rparr>)"
  "sameRun a b \<Longrightarrow> sameRun a (b\<lparr>userdata := (userdata b)\<lparr>s3SiteContext := sc\<rparr>\<rparr>)"
  by (auto simp: sameRun_def logEvent_def recordDuration_def registerRollback_def
      registerFileCleanupFinalizer_def registerFinalizer_def cacheRole_def setTemplate_def)

lemma sr_defer [sr]: "sameRun a (snd r) \<Longrightarrow> sameRun a (snd (deferRecordDuration n r))"
  by (simp add: deferRecordDuration_def sr)

lemma sr_andThen [sr]:
  assumes "sameRun a (snd r)" and "\<And>c. sameRun a c \<Longrightarrow> sameRun a (snd (k c))"
  shows "sameRun a (snd (andThen r k))"
  using assms by (auto simp: andThen_def split: option.splits)

lemma sr_runWorkflowHooks [sr]:
  "sameRun a ctx \<Longrightarrow> sameRun a (snd (runWorkflowHooks w phase hs ctx))"
proof (induction hs arbitrary: ctx)
  case Nil
  then show ?case by simp
next
  case (Cons x xs)
  from Cons.prems show ?case
    by (auto simp: Let_def split: option.splits intro!: Cons.IH sr)
qed

lemma sr_callWorkflowHook [sr]:
  "sameRun a ctx \<Longrightarrow> sameRun a (snd (callWorkflowHook w phase h hs ctx))"
  by (auto simp: callWorkflowHook_def split: option.splits intro!: sr)

lemma sr_hookPhase [sr]:
  "sameRun a ctx \<Longrightarrow> sameRun a (snd (hookPhase w phase single many ctx))"
  by (auto simp: hookPhase_def split: option.splits intro!: sr)

lemma sr_runArchiveHooks [sr]:
  "sameRun a ctx \<Longrightarrow> sameRun a (snd (runArchiveHooks w hs ctx))"
proof (induction hs arbitrary: ctx)
  case Nil
  then show ?case by simp
next
  case (Cons x xs)
  from Cons.prems show ?case
    by (auto simp: Let_def split: option.splits intro!: Cons.IH sr)
qed

lemma sr_callArchiveHook [sr]:
  "sameRun a ctx \<Longrightarrow> sameRun a (snd (callArchiveHook w ctx))"
  by (auto simp: callArchiveHook_def split: option.splits intro!: sr)

lemma sr_runServiceDecorators [sr]:
  "sameRun a ctx \<Longrightarrow> sameRun a (snd (runServiceDecorators w hs ctx))"
proof (induction hs arbitrary: ctx)
  case Nil
  then show ?case by simp
next
  case (Cons x xs)
  from Cons.prems show ?case
    by (auto simp: Let_def split: sum.splits intro!: Cons.IH sr)
qed

lemma sr_callServiceDecoratorHook [sr]:
  "sameRun a ctx \<Longrightarrow> sameRun a (snd (callServiceDecoratorHook w ctx))"
  by (auto simp: callServiceDecoratorHook_def split: option.splits intro!: sr)

lemma sr_runValidationHooks [sr]:
  "sameRun a ctx \<Longrightarrow> sameRun a (snd (runValidationHooks w hs t ctx))"
proof (induction hs arbitrary: ctx)
  case Nil
  then show ?case by simp
next
  case (Cons x xs)
  from Cons.prems show ?case
    by (auto simp: Let_def split: option.splits intro!: Cons.IH sr)
qed

lemma sr_callValidationHooks [sr]:
  "sameRun a ctx \<Longrightarrow> sameRun a (snd (callValidationHooks w hs t ctx))"
  by (auto simp: callValidationHooks_def split: option.splits intro!: sr)

lemma sr_validationPhase [sr]:
  "sameRun a ctx \<Longrightarrow> sameRun a (snd (validationPhase w ctx))"
  by (auto simp: validationPhase_def split: option.splits intro!: sr)

lemma sr_uploadLocalFileToS3 [sr]:
  "sameRun a ctx \<Longrightarrow> sameRun a (snd (uploadLocalFileToS3 w p k ctx))"
  by (auto simp: uploadLocalFileToS3_def Let_def split: sum.splits intro!: sr)

lemma sr_registerRoleDefinition [sr]:
  "sameRun a ctx \<Longrightarrow> sameRun a (registerRoleDefinition n ctx)"
  by (auto simp: registerRoleDefinition_def split: option.splits intro!: sr)

lemma sr_registerCustomResourceRoles [sr]:
  "sameRun a ctx \<Longrightarrow> sameRun a (registerCustomResourceRoles w crs ctx)"
proof (induction crs arbitrary: ctx)
  case Nil
  then show ?case by simp
next
  case (Cons x xs)
  from Cons.prems show ?case
    by (auto split: option.splits intro!: Cons.IH sr)
qed

lemma sr_assembleRoles [sr]:
  "sameRun a ctx \<Longrightarrow> sameRun a (snd (assembleRoles w ls names ctx))"
proof (induction ls arbitrary: names ctx)
  case Nil
  then show ?case by simp
next
  case (Cons x xs)
  from Cons.prems show ?case
    by (auto simp: Let_def split: option.splits intro!: Cons.IH sr)
qed

lemma sr_checkRoleNames [sr]:
  "sameRun a ctx \<Longrightarrow> sameRun a (snd (checkRoleNames w ns ctx))"
proof (induction ns arbitrary: ctx)
  case Nil
  then show ?case by simp
next
  case (Cons x xs)
  from Cons.prems show ?case
    by (auto simp: Let_def split: option.splits sum.splits intro!: Cons.IH sr)
qed

lemma sr_verifyIAMRoles [sr]:
  "sameRun a ctx \<Longrightarrow> sameRun a (snd (verifyIAMRoles w ctx))"
  unfolding verifyIAMRoles_def
  by (auto simp: Let_def split: sum.splits option.splits intro!: sr)

lemma sr_verifyAWSPreconditions [sr]:
  assumes "sameRun a ctx"
  shows "sameRun a (snd (verifyAWSPreconditions w ctx))"
proof (cases "noop (userdata ctx)")
  case True
  with assms show ?thesis
    by (simp add: verifyAWSPreconditions_def sr)
next
  case False
  with assms have "\<not> noop (userdata a)" by (simp add: sameRun_def)
  with assms show ?thesis
    unfolding verifyAWSPreconditions_def
    by (auto simp: Let_def sameRun_def deferRecordDuration_def recordDuration_def split: sum.splits)
qed

lemma sr_createPackageStep [sr]:
  "sameRun a ctx \<Longrightarrow> sameRun a (snd (createPackageStep w ctx))"
  unfolding createPackageStep_def
  by (auto split: sum.splits intro!: sr)

lemma sr_workerPool_Run:
  assumes "\<And>t c. sameRun a c \<Longrightarrow> sameRun a (snd (run t c))"
  shows "sameRun a ctx \<Longrightarrow> sameRun a (snd (workerPool_Run run tasks ctx))"
proof (induction tasks arbitrary: ctx)
  case Nil
  then show ?case by simp
next
  case (Cons t ts)
  from Cons.prems show ?case
    by (auto simp: Let_def intro!: Cons.IH assms)
qed

lemma sr_uploadBinaryTask [sr]:
  "sameRun a ctx \<Longrightarrow> sameRun a (snd (uploadBinaryTask w p ctx))"
  by (auto simp: uploadBinaryTask_def Let_def split: sum.splits intro!: sr)

lemma sr_uploadSiteTask [sr]:
  "sameRun a ctx \<Longrightarrow> sameRun a (snd (uploadSiteTask w r ctx))"
  by (auto simp: uploadSiteTask_def Let_def split: sum.splits option.splits intro!: sr)

lemma sr_runUploadTask [sr]:
  "sameRun a ctx \<Longrightarrow> sameRun a (snd (runUploadTask w t ctx))"
  by (cases t) (simp_all add: runUploadTask_def sr_uploadBinaryTask sr_uploadSiteTask)

lemma sr_createUploadStep [sr]:
  "sameRun a ctx \<Longrightarrow> sameRun a (snd (createUploadStep w p ctx))"
  unfolding createUploadStep_def
  by (auto simp: Let_def intro!: sr sr_workerPool_Run [where run = "runUploadTask w"])

lemma sr_validateSpartaPostconditions [sr]:
  "sameRun a ctx \<Longrightarrow> sameRun a (snd (validateSpartaPostconditions w ctx))"
  by (simp add: validateSpartaPostconditions_def Let_def)

lemma sr_editTemplate [sr]:
  "sameRun a ctx \<Longrightarrow> sameRun a (snd (editTemplate w op subject ctx))"
  by (auto simp: editTemplate_def split: sum.splits intro!: sr)

lemma sr_exportLambdas [sr]:
  "sameRun a ctx \<Longrightarrow> sameRun a (snd (exportLambdas w ls ctx))"
proof (induction ls arbitrary: ctx)
  case Nil
  then show ?case by simp
next
  case (Cons x xs)
  from Cons.prems show ?case
    by (auto simp: Let_def verifyLambdaPreconditions_def split: option.splits intro!: Cons.IH sr)
qed

lemma sr_exportAPI [sr]:
  "sameRun a ctx \<Longrightarrow> sameRun a (snd (exportAPI w ctx))"
  by (auto simp: exportAPI_def Let_def split: option.splits sum.splits intro!: sr)

lemma sr_annotateLambdas [sr]:
  "sameRun a ctx \<Longrightarrow> sameRun a (snd (annotateLambdas w ls ctx))"
proof (induction ls arbitrary: ctx)
  case Nil
  then show ?case by simp
next
  case (Cons x xs)
  from Cons.prems show ?case
    by (auto simp: Let_def split: option.splits intro!: Cons.IH sr)
qed

lemma sr_exportSite [sr]:
  assumes "sameRun a ctx" and "\<And>c. sameRun a c \<Longrightarrow> sameRun a (snd (k c))"
  shows "sameRun a (snd (exportSite w ctx k))"
  using assms unfolding exportSite_def
  by (auto simp: Let_def split: option.splits intro!: sr)

lemma sr_runInPlaceTask [sr]:
  "sameRun a ctx \<Longrightarrow> sameRun a (snd (runInPlaceTask w n t ctx))"
  by (cases t) (auto simp: runInPlaceTask_def intro!: sr)

lemma sr_applyInPlaceFunctionUpdates [sr]:
  "sameRun a ctx \<Longrightarrow> sameRun a (snd (applyInPlaceFunctionUpdates w ctx url))"
  unfolding applyInPlaceFunctionUpdates_def
  by (auto simp: Let_def split: sum.splits option.splits outcome.splits list.splits
      intro!: sr sr_workerPool_Run [where run = "runInPlaceTask w n" for n])

lemma sr_applyCloudFormationOperation [sr]:
  "sameRun a ctx \<Longrightarrow> sameRun a (snd (applyCloudFormationOperation w ctx))"
  unfolding applyCloudFormationOperation_def
  by (auto simp: Let_def split: sum.splits outcome.splits intro!: sr)

lemma sr_ensureCloudFormationStack [sr]:
  "sameRun a ctx \<Longrightarrow> sameRun a (snd (ensureCloudFormationStack w ctx))"
  unfolding ensureCloudFormationStack_def
  by (auto simp: Let_def intro!: sr)

lemma sr_invoke: "sameRun a ctx \<Longrightarrow> sameRun a (snd (invoke w step ctx))"
  by (cases step) (simp_all add: invoke_def sr)


lemma reaches_sameRun: "reaches w c0 s ctx \<Longrightarrow> sameRun c0 ctx"
proof (induction rule: reaches.induct)
  case start
  show ?case by simp
next
  case (step s ctx s')
  have "sameRun c0 (logEvent (EvStep s) ctx)"
    using step.IH by (rule sr)
  then show ?case
    unfolding runStep_def by (rule sr_invoke)
qed

subsection \<open>The region check\<close>

lemma steps_simps [simp]:
  "steps [] = []"
  "steps (EvStep s # evs) = s # steps evs"
  "steps (xs @ ys) = steps xs @ steps ys"
  by (simp_all add: steps_def)

lemma steps_stepEvent [simp]: "stepEvent ev \<Longrightarrow> steps (ev # evs) = steps evs"
  by (cases ev) (simp_all add: steps_def stepEvent_def)

lemma steps_stepEvents: "list_all stepEvent evs \<Longrightarrow> steps evs = []"
  by (induction evs) simp_all

lemma steps_other [simp]:
  "steps (EvStepError e # evs) = steps evs"
  "steps (EvRollback hs fs # evs) = steps evs"
  "steps (EvFinalizer f # evs) = steps evs"
  by (simp_all add: steps_def)

lemma reaches_VerifyIAMRoles:
  assumes "reaches w c0 VerifyIAMRoles ctx"
  shows "ctx = c0"
  using assms
proof (cases rule: reaches.cases)
  case start
  then show ?thesis by simp
next
  case (step s c)
  from invoke_rank [OF step(3)] show ?thesis
    by (simp add: stepRank_def)
qed

lemma reaches_VerifyAWSPreconditions:
  assumes "reaches w c0 VerifyAWSPreconditions ctx"
  shows "ctx = runStep w VerifyIAMRoles c0"
  using assms
proof (cases rule: reaches.cases)
  case (step s c)
  from invoke_rank [OF step(3)] have "stepRank s = 0"
    by (simp add: stepRank_def)
  then have s: "s = VerifyIAMRoles"
    by (cases s) (simp_all add: stepRank_def)
  with step(2) have "c = c0" by (simp add: reaches_VerifyIAMRoles)
  with step(1) s show ?thesis by simp
qed

lemma runStep_steps: "steps (trace (runStep w s ctx)) = steps (trace ctx) @ [s]"
proof -
  have "extends (logEvent (EvStep s) ctx) (snd (invoke w s (logEvent (EvStep s) ctx)))"
    by (rule ext_invoke) simp
  then obtain evs where "trace (runStep w s ctx) = trace ctx @ EvStep s # evs" "list_all stepEvent evs"
    by (auto simp: extends_def runStep_def)
  then show ?thesis by (simp add: steps_stepEvents)
qed

lemma verifyAWSPreconditions_mismatch:
  assumes "\<not> noop (userdata ctx)" and "lambdaAWSInfos (userdata ctx) \<noteq> []"
    and "s3_BucketVersioningEnabled w (s3Bucket (userdata ctx)) = Inr isEnabled"
    and "codePipelineTrigger (userdata ctx) = [] \<or> isEnabled"
    and "s3_BucketRegion w (s3Bucket (userdata ctx)) = Inr bucketRegion"
    and "bucketRegion \<noteq> sessionRegion w"
  shows "fst (verifyAWSPreconditions w ctx)
           = Return (None, Some (regionMismatch (sessionRegion w) bucketRegion))"
  using assms
  by (auto simp: verifyAWSPreconditions_def deferRecordDuration_def Let_def regionMismatch_def)

text \<open>
  C7, amended. Take a run that is not a dry run and has at least one Lambda function, at
  the context in which the loop invokes the precondition step. When the versioning query
  succeeds (finding versioning enabled if a CodePipeline trigger is given) and the region
  query returns a region other than the session's, the step returns the region-mismatch
  error; the loop fails with that error, and the only steps begun are the role step and
  the precondition step: packaging does not begin.
\<close>

theorem verifyAWSPreconditions_region_mismatch:
  assumes "reaches w (newWorkflowContext False serviceNameArg lambdas apiArg site bucket
                        inPlaceUpdates trigger hooks) VerifyAWSPreconditions ctx"
    and "lambdas \<noteq> []"
    and "s3_BucketVersioningEnabled w bucket = Inr isEnabled"
    and "trigger = [] \<or> isEnabled"
    and "s3_BucketRegion w bucket = Inr bucketRegion"
    and "bucketRegion \<noteq> sessionRegion w"
  shows "fst (invoke w VerifyAWSPreconditions (logEvent (EvStep VerifyAWSPreconditions) ctx))
           = Return (None, Some (regionMismatch (sessionRegion w) bucketRegion))
         \<and> (\<exists>ctx'. workflowLoop (Suc fuel) w VerifyAWSPreconditions ctx
                      = Some (Failed (regionMismatch (sessionRegion w) bucketRegion), ctx')
                    \<and> steps (trace ctx') = [VerifyIAMRoles, VerifyAWSPreconditions])"
proof -
  let ?start = "newWorkflowContext False serviceNameArg lambdas apiArg site bucket
               inPlaceUpdates trigger hooks"
  let ?called = "logEvent (EvStep VerifyAWSPreconditions) ctx"
  let ?err = "regionMismatch (sessionRegion w) bucketRegion"
  have "sameRun ?start ?called"
    by (rule sr_basic(1) [OF reaches_sameRun [OF assms(1)]])
  then have fields: "\<not> noop (userdata ?called)" "lambdaAWSInfos (userdata ?called) = lambdas"
    "s3Bucket (userdata ?called) = bucket" "codePipelineTrigger (userdata ?called) = trigger"
    by (simp_all add: sameRun_def newWorkflowContext_def)
  have "fst (verifyAWSPreconditions w ?called) = Return (None, Some ?err)"
    by (rule verifyAWSPreconditions_mismatch [where isEnabled = isEnabled])
       (use fields assms in simp_all)
  then have failed: "fst (invoke w VerifyAWSPreconditions ?called) = Return (None, Some ?err)"
    by (simp add: invoke_def)
  let ?r = "snd (invoke w VerifyAWSPreconditions ?called)"
  let ?ctx' = "rollback (logEvent (EvStepError ?err) ?r)"
  from workflowLoop_Suc(2) [OF failed]
  have loop: "workflowLoop (Suc fuel) w VerifyAWSPreconditions ctx = Some (Failed ?err, ?ctx')" .
  have "steps (trace ?r) = steps (trace ctx) @ [VerifyAWSPreconditions]"
    using runStep_steps [of w VerifyAWSPreconditions ctx] by (simp add: runStep_def)
  moreover have "steps (trace ctx) = [VerifyIAMRoles]"
    using runStep_steps [of w VerifyIAMRoles ?start] reaches_VerifyAWSPreconditions [OF assms(1)]
    by (simp add: newWorkflowContext_def)
  moreover obtain warns hs where
    "trace ?ctx' = trace (logEvent (EvStepError ?err) ?r) @ warns
        @ [EvRollback hs (rollbackFunctions (transaction (logEvent (EvStepError ?err) ?r)))]"
    "list_all stepEvent warns"
    using rollback_trace [of "logEvent (EvStepError ?err) ?r"] by blast
  ultimately have "steps (trace ?ctx') = [VerifyIAMRoles, VerifyAWSPreconditions]"
    by (simp add: steps_stepEvents)
  with failed loop show ?thesis by blast
qed

lemma east_run:
  "map_option (\<lambda>r. (fst r, steps (trace (snd r))))
     (Provision 6 eastBucketWorld False ''svc'' [] None None ''bucket'' False [] (Some noHooks))
   = Some (Return None,
           [VerifyIAMRoles, VerifyAWSPreconditions, CreatePackageStep,
            CreateUploadStep ''.sparta/svc-code.zip'', ValidateSpartaPostconditions,
            EnsureCloudFormationStack])"
  by (simp add: run_defs run_more andThen_simps eval_nat_numeral eastBucketWorld_def world0_def
      cong: let_weak_cong andThen_weak_cong)

text \<open>
  The claim without the restriction to runs with Lambda functions does not hold. In a run
  with workflow hooks and no Lambda function the region is not checked (the source:
  \<open>We only need to check this if we're going to upload a ZIP\<close>): with the session in
  \<open>us-west-2\<close> and the bucket in \<open>us-east-1\<close> the precondition step succeeds, every
  step begins and \<open>Provision\<close> returns \<open>nil\<close>.
\<close>

theorem verifyAWSPreconditions_region_counterexample:
  "s3_BucketRegion eastBucketWorld ''bucket'' = Inr ''us-east-1''
   \<and> sessionRegion eastBucketWorld = ''us-west-2''
   \<and> (\<exists>ctx'. Provision 6 eastBucketWorld False ''svc'' [] None None ''bucket'' False [] (Some noHooks)
                = Some (Return None, ctx')
              \<and> steps (trace ctx')
                  = [VerifyIAMRoles, VerifyAWSPreconditions, CreatePackageStep,
                     CreateUploadStep ''.sparta/svc-code.zip'', ValidateSpartaPostconditions,
                     EnsureCloudFormationStack])"
proof -
  have "s3_BucketRegion eastBucketWorld ''bucket'' = Inr ''us-east-1''"
    and "sessionRegion eastBucketWorld = ''us-west-2''"
    by (simp_all add: eastBucketWorld_def world0_def)
  moreover from east_run
  have "\<exists>ctx'. Provision 6 eastBucketWorld False ''svc'' [] None None ''bucket'' False [] (Some noHooks)
                = Some (Return None, ctx')
              \<and> steps (trace ctx')
                  = [VerifyIAMRoles, VerifyAWSPreconditions, CreatePackageStep,
                     CreateUploadStep ''.sparta/svc-code.zip'', ValidateSpartaPostconditions,
                     EnsureCloudFormationStack]"
    by auto
  ultimately show ?thesis by blast
qed

lemma mismatch_reached:
  "reaches eastBucketWorld mismatchStart VerifyAWSPreconditions
     (runStep eastBucketWorld VerifyIAMRoles mismatchStart)"
  by (rule reaches.step [OF reaches.start])
     (simp add: run_defs run_more andThen_simps eastBucketWorld_def world0_def mismatchStart_def
        cong: let_weak_cong andThen_weak_cong)

text \<open>
  The witness: the run of \<open>helloLambda\<close> with the session in \<open>us-west-2\<close> and the
  bucket in \<open>us-east-1\<close> fails with the region mismatch before packaging.
\<close>

theorem verifyAWSPreconditions_region_mismatch_witness:
  "reaches eastBucketWorld mismatchStart VerifyAWSPreconditions
     (runStep eastBucketWorld VerifyIAMRoles mismatchStart)
   \<and> [helloLambda] \<noteq> []
   \<and> s3_BucketVersioningEnabled eastBucketWorld ''bucket'' = Inr False
   \<and> s3_BucketRegion eastBucketWorld ''bucket'' = Inr ''us-east-1''
   \<and> ''us-east-1'' \<noteq> sessionRegion eastBucketWorld
   \<and> regionMismatch (sessionRegion eastBucketWorld) ''us-east-1''
       = Err ''region (us-west-2) does not match bucket region (us-east-1)''
   \<and> (\<exists>ctx'. Provision 6 eastBucketWorld False ''svc'' [helloLambda] None None ''bucket'' False [] None
                = Some (Return (Some (Wrapf (regionMismatch (sessionRegion eastBucketWorld) ''us-east-1'')
                                        ''Failed to provision service'')), ctx')
              \<and> steps (trace ctx') = [VerifyIAMRoles, VerifyAWSPreconditions])"
proof -
  have world:
    "s3_BucketVersioningEnabled eastBucketWorld ''bucket'' = Inr False"
    "s3_BucketRegion eastBucketWorld ''bucket'' = Inr ''us-east-1''"
    "''us-east-1'' \<noteq> sessionRegion eastBucketWorld"
    "validateSpartaPreconditions eastBucketWorld [helloLambda] = None"
    by (simp_all add: eastBucketWorld_def world0_def)
  have message: "regionMismatch (sessionRegion eastBucketWorld) ''us-east-1''
       = Err ''region (us-west-2) does not match bucket region (us-east-1)''"
    by (simp add: regionMismatch_def eastBucketWorld_def world0_def)
  have first: "fst (invoke eastBucketWorld VerifyIAMRoles (logEvent (EvStep VerifyIAMRoles) mismatchStart))
                 = Return (Some VerifyAWSPreconditions, None)"
    by (simp add: run_defs run_more andThen_simps eastBucketWorld_def world0_def mismatchStart_def
        cong: let_weak_cong andThen_weak_cong)
  note claim = verifyAWSPreconditions_region_mismatch
    [of eastBucketWorld "''svc''" "[helloLambda]" None None "''bucket''" False "[]" None
        "runStep eastBucketWorld VerifyIAMRoles mismatchStart" False "''us-east-1''" 4,
     folded mismatchStart_def]
  from claim mismatch_reached world obtain ctx' where
    loop: "workflowLoop 5 eastBucketWorld VerifyAWSPreconditions
             (runStep eastBucketWorld VerifyIAMRoles mismatchStart)
           = Some (Failed (regionMismatch (sessionRegion eastBucketWorld) ''us-east-1''), ctx')"
    and begun: "steps (trace ctx') = [VerifyIAMRoles, VerifyAWSPreconditions]"
    by (auto simp: mismatchStart_def eval_nat_numeral)
  from workflowLoop_Suc(4) [OF first, of 5] loop
  have "workflowLoop 6 eastBucketWorld VerifyIAMRoles mismatchStart
          = Some (Failed (regionMismatch (sessionRegion eastBucketWorld) ''us-east-1''), ctx')"
    by (simp add: runStep_def eval_nat_numeral)
  with world(4)
  have "Provision 6 eastBucketWorld False ''svc'' [helloLambda] None None ''bucket'' False [] None
          = Some (Return (Some (Wrapf (regionMismatch (sessionRegion eastBucketWorld) ''us-east-1'')
                                  ''Failed to provision service'')), ctx')"
    by (simp add: Provision_def Let_def mismatchStart_def)
  with begun mismatch_reached world message show ?thesis by blast
qed

subsection \<open>Uploads in a dry run\<close>

text \<open>
  C8. An upload in a dry run. Every context of a dry run keeps \<open>sameRun\<close> with the
  context that \<open>Provision\<close> built (\<open>reaches_sameRun\<close> and the lemmas \<open>sr\<close>): it is a
  dry run and the versioning flag is still off. There \<open>uploadLocalFileToS3\<close>, called
  without a key as all its callers do, returns the location
  \<open>https://<bucket>-s3.amazonaws.com/<key>\<close> where the key is the salted key of the naming
  policy for the default key; it changes nothing of the context but the clock that the
  salt read: no event of a remote call is added to the trace, and the transaction (rollback
  functions, finalizers) is unchanged.
\<close>

theorem uploadLocalFileToS3_dry_run:
  assumes "sameRun (newWorkflowContext True serviceNameArg lambdas apiArg site bucket
                      inPlaceUpdates trigger hooks) ctx"
  shows "(let defaultS3KeyName = serviceNameArg @ ''/'' @ filepath_Base w localPath;
              now = time_Now_UnixNano w (clock ctx);
              r = uploadLocalFileToS3 w localPath [] ctx
          in \<exists>key. versionAwareS3KeyName (sha1_Sum w) now defaultS3KeyName False = Inr key
               \<and> key = strings_TrimSuffix defaultS3KeyName (path_Ext defaultS3KeyName) @ ''-''
                          @ hex_EncodeToString (sha1_Sum w (keySalt defaultS3KeyName now))
                          @ path_Ext defaultS3KeyName
               \<and> fst r = Inr (''https://'' @ bucket @ ''-s3.amazonaws.com/'' @ key)
               \<and> snd r = ctx\<lparr>clock := Suc (clock ctx)\<rparr>
               \<and> trace (snd r) = trace ctx
               \<and> transaction (snd r) = transaction ctx)"
proof -
  from assms have "noop (userdata ctx)" "\<not> s3BucketVersioningEnabled (context ctx)"
    "serviceName (userdata ctx) = serviceNameArg" "s3Bucket (userdata ctx) = bucket"
    by (simp_all add: sameRun_def newWorkflowContext_def)
  then show ?thesis
    by (simp add: uploadLocalFileToS3_def versionAwareS3KeyName_def Let_def)
qed

lemma dryRun_reached:
  "reaches world0 dryRunStart (CreateUploadStep ''.sparta/svc-code.zip'')
     (runStep world0 CreatePackageStep
        (runStep world0 VerifyAWSPreconditions
           (runStep world0 VerifyIAMRoles dryRunStart)))"
proof -
  note ev = run_defs run_more andThen_simps eval_nat_numeral world0_simps runStep_def dryRunStart_def
  have 1: "reaches world0 dryRunStart VerifyAWSPreconditions (runStep world0 VerifyIAMRoles dryRunStart)"
    by (rule reaches.step [OF reaches.start])
       (simp add: ev cong: let_weak_cong andThen_weak_cong)
  have 2: "reaches world0 dryRunStart CreatePackageStep
             (runStep world0 VerifyAWSPreconditions (runStep world0 VerifyIAMRoles dryRunStart))"
    by (rule reaches.step [OF 1])
       (simp add: ev cong: let_weak_cong andThen_weak_cong)
  show ?thesis
    by (rule reaches.step [OF 2])
       (simp add: ev cong: let_weak_cong andThen_weak_cong)
qed

text \<open>
  The witness: the dry run of \<open>helloLambda\<close> reaches the upload step, and the upload of
  its code archive returns a made-up location with the salted key.
\<close>

theorem uploadLocalFileToS3_dry_run_witness:
  "reaches world0 dryRunStart (CreateUploadStep ''.sparta/svc-code.zip'')
     (runStep world0 CreatePackageStep
        (runStep world0 VerifyAWSPreconditions
           (runStep world0 VerifyIAMRoles dryRunStart)))
   \<and> sameRun dryRunStart dryRunUploadContext
   \<and> (\<exists>key hash.
         versionAwareS3KeyName (sha1_Sum world0) (time_Now_UnixNano world0 (clock dryRunUploadContext))
           ''svc/svc-code.zip'' False = Inr key
         \<and> key = ''svc/svc-code-'' @ hash @ ''.zip''
         \<and> fst (uploadLocalFileToS3 world0 ''.sparta/svc-code.zip'' [] dryRunUploadContext)
             = Inr (''https://bucket-s3.amazonaws.com/'' @ key)
         \<and> trace (snd (uploadLocalFileToS3 world0 ''.sparta/svc-code.zip'' [] dryRunUploadContext))
             = trace dryRunUploadContext
         \<and> transaction (snd (uploadLocalFileToS3 world0 ''.sparta/svc-code.zip'' [] dryRunUploadContext))
             = transaction dryRunUploadContext)"
proof -
  have same: "sameRun dryRunStart dryRunUploadContext"
    unfolding dryRunUploadContext_def
    by (rule sr_basic(1) [OF reaches_sameRun [OF dryRun_reached]])
  have base: "filepath_Base world0 ''.sparta/svc-code.zip'' = ''svc-code.zip''"
    by (simp add: world0_simps unixBase_def)
  have ext: "path_Ext ''svc/svc-code.zip'' = ''.zip''"
    by code_simp
  have pre: "strings_TrimSuffix ''svc/svc-code.zip'' ''.zip'' = ''svc/svc-code''"
    by code_simp
  note claim = uploadLocalFileToS3_dry_run
    [of "''svc''" "[helloLambda]" None None "''bucket''" False "[]" None dryRunUploadContext
        world0 "''.sparta/svc-code.zip''",
     folded dryRunStart_def]
  from claim same base ext pre
  have "\<exists>key hash.
         versionAwareS3KeyName (sha1_Sum world0) (time_Now_UnixNano world0 (clock dryRunUploadContext))
           ''svc/svc-code.zip'' False = Inr key
         \<and> key = ''svc/svc-code-'' @ hash @ ''.zip''
         \<and> fst (uploadLocalFileToS3 world0 ''.sparta/svc-code.zip'' [] dryRunUploadContext)
             = Inr (''https://bucket-s3.amazonaws.com/'' @ key)
         \<and> trace (snd (uploadLocalFileToS3 world0 ''.sparta/svc-code.zip'' [] dryRunUploadContext))
             = trace dryRunUploadContext
         \<and> transaction (snd (uploadLocalFileToS3 world0 ''.sparta/svc-code.zip'' [] dryRunUploadContext))
             = transaction dryRunUploadContext"
    by (auto simp: Let_def)
  with same dryRun_reached show ?thesis by blast
qed

end
